theory Spec2Isabelle
  imports Complex_Main "HOL-Library.Sublist"
begin

section \<open>numpy float64 values\<close>

text \<open>
  The production figures, the decline parameters and the forecasts of
  \<^verbatim>\<open>backend/pdp_forecast.py\<close> are numpy float64 values. They are modelled
  by \<open>fl\<close>: a finite value is a real number (rounding and overflow are not modelled),
  and the three non-finite values behave as IEEE 754 and the C library prescribe, which
  is what numpy computes under its default error state (a division by zero or an
  invalid operation warns and yields \<open>inf\<close> or \<open>nan\<close>; it does not raise).
  The sign of zero is not modelled: every zero is \<open>+0\<close>.
\<close>

datatype fl = Fin real | PInf | NInf | NaN

fun is_finite :: "fl \<Rightarrow> bool" where
  "is_finite (Fin x) = True"
| "is_finite PInf = False"
| "is_finite NInf = False"
| "is_finite NaN = False"

definition fl_of_int :: "int \<Rightarrow> fl" where
  "fl_of_int i = Fin (of_int i)"

fun fl_neg :: "fl \<Rightarrow> fl" where
  "fl_neg (Fin x) = Fin (- x)"
| "fl_neg PInf = NInf"
| "fl_neg NInf = PInf"
| "fl_neg NaN = NaN"

fun fl_add :: "fl \<Rightarrow> fl \<Rightarrow> fl" where
  "fl_add NaN y = NaN"
| "fl_add x NaN = NaN"
| "fl_add (Fin x) (Fin y) = Fin (x + y)"
| "fl_add (Fin x) PInf = PInf"
| "fl_add (Fin x) NInf = NInf"
| "fl_add PInf (Fin y) = PInf"
| "fl_add NInf (Fin y) = NInf"
| "fl_add PInf PInf = PInf"
| "fl_add NInf NInf = NInf"
| "fl_add PInf NInf = NaN"
| "fl_add NInf PInf = NaN"

definition fl_sub :: "fl \<Rightarrow> fl \<Rightarrow> fl" where
  "fl_sub x y = fl_add x (fl_neg y)"

fun fl_mul :: "fl \<Rightarrow> fl \<Rightarrow> fl" where
  "fl_mul NaN y = NaN"
| "fl_mul x NaN = NaN"
| "fl_mul (Fin x) (Fin y) = Fin (x * y)"
| "fl_mul (Fin x) PInf = (if x = 0 then NaN else if 0 < x then PInf else NInf)"
| "fl_mul (Fin x) NInf = (if x = 0 then NaN else if 0 < x then NInf else PInf)"
| "fl_mul PInf (Fin y) = (if y = 0 then NaN else if 0 < y then PInf else NInf)"
| "fl_mul NInf (Fin y) = (if y = 0 then NaN else if 0 < y then NInf else PInf)"
| "fl_mul PInf PInf = PInf"
| "fl_mul NInf NInf = PInf"
| "fl_mul PInf NInf = NInf"
| "fl_mul NInf PInf = NInf"

fun fl_div :: "fl \<Rightarrow> fl \<Rightarrow> fl" where
  "fl_div NaN y = NaN"
| "fl_div x NaN = NaN"
| "fl_div (Fin x) (Fin y) =
     (if y = 0 then (if x = 0 then NaN else if 0 < x then PInf else NInf)
      else Fin (x / y))"
| "fl_div (Fin x) PInf = Fin 0"
| "fl_div (Fin x) NInf = Fin 0"
| "fl_div PInf (Fin y) = (if 0 \<le> y then PInf else NInf)"
| "fl_div NInf (Fin y) = (if 0 \<le> y then NInf else PInf)"
| "fl_div PInf PInf = NaN"
| "fl_div NInf NInf = NaN"
| "fl_div PInf NInf = NaN"
| "fl_div NInf PInf = NaN"

text \<open>
  \<open>x ** y\<close> on float64 is the C library's \<open>pow\<close>: \<open>pow(x, 0) = 1\<close> and
  \<open>pow(1, y) = 1\<close> for every \<open>x\<close> and \<open>y\<close>, \<open>nan\<close> included; a negative finite base
  with a finite exponent that is not an integer gives \<open>nan\<close>; a zero base with a negative
  exponent gives \<open>inf\<close>.
\<close>

definition is_odd_int :: "real \<Rightarrow> bool" where
  "is_odd_int y = (of_int \<lfloor>y\<rfloor> = y \<and> odd \<lfloor>y\<rfloor>)"

fun fl_pow :: "fl \<Rightarrow> fl \<Rightarrow> fl" where
  "fl_pow (Fin x) (Fin y) =
     (if y = 0 \<or> x = 1 then Fin 1
      else if 0 < x then Fin (x powr y)
      else if x = 0 then (if 0 < y then Fin 0 else PInf)
      else if of_int \<lfloor>y\<rfloor> = y then Fin (power_int x \<lfloor>y\<rfloor>)
      else NaN)"
| "fl_pow (Fin x) PInf =
     (if x = 1 \<or> x = - 1 then Fin 1 else if \<bar>x\<bar> < 1 then Fin 0 else PInf)"
| "fl_pow (Fin x) NInf =
     (if x = 1 \<or> x = - 1 then Fin 1 else if \<bar>x\<bar> < 1 then PInf else Fin 0)"
| "fl_pow (Fin x) NaN = (if x = 1 then Fin 1 else NaN)"
| "fl_pow PInf (Fin y) = (if y = 0 then Fin 1 else if 0 < y then PInf else Fin 0)"
| "fl_pow NInf (Fin y) =
     (if y = 0 then Fin 1
      else if 0 < y then (if is_odd_int y then NInf else PInf)
      else Fin 0)"
| "fl_pow PInf PInf = PInf"
| "fl_pow NInf PInf = PInf"
| "fl_pow PInf NInf = Fin 0"
| "fl_pow NInf NInf = Fin 0"
| "fl_pow PInf NaN = NaN"
| "fl_pow NInf NaN = NaN"
| "fl_pow NaN (Fin y) = (if y = 0 then Fin 1 else NaN)"
| "fl_pow NaN PInf = NaN"
| "fl_pow NaN NInf = NaN"
| "fl_pow NaN NaN = NaN"

text \<open>The order on float64: every comparison with \<open>nan\<close> is false.\<close>

fun fl_le :: "fl \<Rightarrow> fl \<Rightarrow> bool" where
  "fl_le NaN y = False"
| "fl_le x NaN = False"
| "fl_le (Fin x) (Fin y) = (x \<le> y)"
| "fl_le NInf y = True"
| "fl_le x PInf = True"
| "fl_le PInf y = False"
| "fl_le x NInf = False"

section \<open>The decline model\<close>

text \<open>
  \<^verbatim>\<open>def arps_decline(t, qi, di, b): return qi / (1 + b * di * t) ** (1 / b)\<close>

  \<open>**\<close> binds tighter than \<open>/\<close>, and \<open>b * di * t\<close> is \<open>(b * di) * t\<close>. On an array of
  offsets the function acts on each element (see \<open>arps_decline_vec\<close>).
\<close>

definition arps_decline :: "fl \<Rightarrow> fl \<Rightarrow> fl \<Rightarrow> fl \<Rightarrow> fl" where
  "arps_decline t qi di b =
     fl_div qi (fl_pow (fl_add (Fin 1) (fl_mul (fl_mul b di) t)) (fl_div (Fin 1) b))"

definition arps_decline_vec :: "fl list \<Rightarrow> fl \<Rightarrow> fl \<Rightarrow> fl \<Rightarrow> fl list" where
  "arps_decline_vec ts qi di b = map (\<lambda>t. arps_decline t qi di b) ts"

section \<open>numpy arrays\<close>

text \<open>
  The exceptions the code can raise, by class. \<open>curve_fit\<close> raises \<open>ValueError\<close>,
  \<open>TypeError\<close> or \<open>RuntimeError\<close>; the module defines no exception class of its own.
\<close>

datatype error = ValueError | IndexError | TypeError | RuntimeError | ZeroDivisionError

text \<open>\<open>a.max()\<close>: raises \<open>ValueError\<close> on an empty array and propagates \<open>nan\<close>.\<close>

definition fl_max :: "fl \<Rightarrow> fl \<Rightarrow> fl" where
  "fl_max x y = (if x = NaN \<or> y = NaN then NaN else if fl_le x y then y else x)"

definition np_max :: "fl list \<Rightarrow> error + fl" where
  "np_max xs = (case xs of [] \<Rightarrow> Inl ValueError | x # ys \<Rightarrow> Inr (foldl fl_max x ys))"

text \<open>\<open>np.mean(a)\<close>: the sum divided by the count; on an empty array \<open>0 / 0 = nan\<close>.\<close>

definition np_sum :: "fl list \<Rightarrow> fl" where
  "np_sum xs = foldl fl_add (Fin 0) xs"

definition np_mean :: "fl list \<Rightarrow> fl" where
  "np_mean xs = fl_div (np_sum xs) (Fin (real (length xs)))"

text \<open>
  An elementwise binary operation on two one-dimensional arrays: the shapes must be
  equal, or one of them must be \<open>(1,)\<close>, which is then broadcast; otherwise numpy raises
  \<open>ValueError\<close> (operands could not be broadcast together).
\<close>

definition broadcast2 :: "(fl \<Rightarrow> fl \<Rightarrow> fl) \<Rightarrow> fl list \<Rightarrow> fl list \<Rightarrow> error + fl list" where
  "broadcast2 f xs ys =
     (if length xs = length ys then Inr (map2 f xs ys)
      else if length xs = 1 then Inr (map (f (hd xs)) ys)
      else if length ys = 1 then Inr (map (\<lambda>x. f x (hd ys)) xs)
      else Inl ValueError)"

text \<open>
  \<open>np.arange(start, stop, step)\<close> on integers: \<open>ceil((stop - start) / step)\<close> values
  \<open>start, start + step, ...\<close> (none when that count is not positive).
\<close>

definition np_arange :: "int \<Rightarrow> int \<Rightarrow> int \<Rightarrow> error + int list" where
  "np_arange start stop step =
     (if step = 0 then Inl ZeroDivisionError
      else
        let n = (if 0 < step then (stop - start + step - 1) div step
                 else (start - stop - step - 1) div (- step))
        in Inr (map (\<lambda>k. start + step * int k) [0..<nat n]))"

section \<open>The production series\<close>

text \<open>
  A data frame is the list of its rows, in order. \<open>prod_date\<close> is the day number of the
  record's date, so that \<open>(d - d0).days\<close> is the difference of two day numbers.
\<close>

record row =
  well_api :: int
  prod_date :: int
  oil :: fl
  gas :: fl

type_synonym dataframe = "row list"

text \<open>\<open>Series.unique()\<close>: the distinct values in order of first appearance.\<close>

fun unique :: "'a list \<Rightarrow> 'a list" where
  "unique [] = []"
| "unique (x # xs) = x # unique (filter (\<lambda>y. y \<noteq> x) xs)"

text \<open>\<open>df.iloc[:-12]\<close> and \<open>df.iloc[-12:]\<close>; a frame of fewer than 12 rows has an empty
  head and is its own tail.\<close>

definition iloc_upto_neg :: "nat \<Rightarrow> 'a list \<Rightarrow> 'a list" where
  "iloc_upto_neg k xs = take (length xs - k) xs"

definition iloc_from_neg :: "nat \<Rightarrow> 'a list \<Rightarrow> 'a list" where
  "iloc_from_neg k xs = drop (length xs - k) xs"

text \<open>
  \<^verbatim>\<open>time = (well_data['prod_date'] - well_data['prod_date'].min()).dt.days.values\<close>

  On an empty frame the minimum is \<open>NaT\<close> and the result is the empty array.
\<close>

definition elapsed_days :: "int list \<Rightarrow> int list" where
  "elapsed_days ds = (case ds of [] \<Rightarrow> [] | d # rest \<Rightarrow> map (\<lambda>x. x - foldl min d rest) ds)"

section \<open>The curve fitter\<close>

text \<open>
  \<open>scipy.optimize.curve_fit\<close> is a library routine, not code of this repository: the
  model takes it as a parameter \<open>cf\<close>. It receives the model function, the offsets, the
  observations, the initial guess \<open>p0\<close> and the pair of the lower and the upper bounds,
  and returns the fitted parameters or raises.
\<close>

type_synonym params = "fl \<times> fl \<times> fl"

type_synonym curve_fit =
  "(fl \<Rightarrow> fl \<Rightarrow> fl \<Rightarrow> fl \<Rightarrow> fl) \<Rightarrow> int list \<Rightarrow> fl list \<Rightarrow> params \<Rightarrow> params \<times> params
     \<Rightarrow> error + params"

text \<open>
  \<^verbatim>\<open>
  def fit_arps_decline(time, production):
      p0 = [production.max(), 0.1, 0.5]
      popt, _ = curve_fit(arps_decline, time, production, p0=p0,
                          bounds=([0, 0, 0], [np.inf, 1, 2]))
      return popt
  \<close>
\<close>

definition fit_bounds :: "params \<times> params" where
  "fit_bounds = ((Fin 0, Fin 0, Fin 0), (PInf, Fin 1, Fin 2))"

definition fit_arps_decline :: "curve_fit \<Rightarrow> int list \<Rightarrow> fl list \<Rightarrow> error + params" where
  "fit_arps_decline cf time production =
     (case np_max production of
        Inl e \<Rightarrow> Inl e
      | Inr qi0 \<Rightarrow> cf arps_decline time production (qi0, Fin (1 / 10), Fin (1 / 2)) fit_bounds)"

section \<open>The forecaster\<close>

text \<open>
  \<^verbatim>\<open>
  def forecast_well(well_data, forecast_months=12):
      time = (well_data['prod_date'] - well_data['prod_date'].min()).dt.days.values
      oil_production = well_data['oil'].values
      gas_production = well_data['gas'].values
      oil_params = fit_arps_decline(time, oil_production)
      gas_params = fit_arps_decline(time, gas_production)
      forecast_time = np.arange(time[-1] + 30, time[-1] + 30 * (forecast_months + 1), 30)
      oil_forecast = arps_decline(forecast_time, *oil_params)
      gas_forecast = arps_decline(forecast_time, *gas_params)
      return oil_forecast, gas_forecast
  \<close>
\<close>

definition forecast_well :: "curve_fit \<Rightarrow> dataframe \<Rightarrow> int \<Rightarrow> error + fl list \<times> fl list" where
  "forecast_well cf well_data forecast_months =
     (let time = elapsed_days (map prod_date well_data);
          oil_production = map oil well_data;
          gas_production = map gas well_data
      in case fit_arps_decline cf time oil_production of
           Inl e \<Rightarrow> Inl e
         | Inr (oqi, odi, ob) \<Rightarrow>
        (case fit_arps_decline cf time gas_production of
           Inl e \<Rightarrow> Inl e
         | Inr (gqi, gdi, gb) \<Rightarrow>
        (if time = [] then Inl IndexError
         else case np_arange (last time + 30) (last time + 30 * (forecast_months + 1)) 30 of
           Inl e \<Rightarrow> Inl e
         | Inr forecast_time \<Rightarrow>
             Inr (arps_decline_vec (map fl_of_int forecast_time) oqi odi ob,
                  arps_decline_vec (map fl_of_int forecast_time) gqi gdi gb))))"

section \<open>The evaluator\<close>

text \<open>
  \<^verbatim>\<open>def calculate_mpe(actual, forecast): return np.mean((forecast - actual) / actual) * 100\<close>
\<close>

definition calculate_mpe :: "fl list \<Rightarrow> fl list \<Rightarrow> error + fl" where
  "calculate_mpe actual forecast =
     (case broadcast2 fl_sub forecast actual of
        Inl e \<Rightarrow> Inl e
      | Inr diff \<Rightarrow>
     (case broadcast2 fl_div diff actual of
        Inl e \<Rightarrow> Inl e
      | Inr ratio \<Rightarrow> Inr (fl_mul (np_mean ratio) (Fin 100))))"

record evaluation =
  ev_well_api :: int
  oil_mpe :: fl
  gas_mpe :: fl

text \<open>
  The body of the \<open>try\<close> block of \<open>evaluate_forecast\<close> for one well: its value is the
  record to append, or the exception raised on the way.
  \<^verbatim>\<open>
  well_data = df[df['well_api'] == well]
  train_data = well_data.iloc[:-12]
  test_data = well_data.iloc[-12:]
  oil_forecast, gas_forecast = forecast_well(train_data)
  oil_mpe = calculate_mpe(test_data['oil'].values, oil_forecast)
  gas_mpe = calculate_mpe(test_data['gas'].values, gas_forecast)
  results.append({'well_api': well, 'oil_mpe': oil_mpe, 'gas_mpe': gas_mpe})
  \<close>
\<close>

definition score_well :: "curve_fit \<Rightarrow> dataframe \<Rightarrow> int \<Rightarrow> error + evaluation" where
  "score_well cf df well =
     (let well_data = filter (\<lambda>r. well_api r = well) df;
          train_data = iloc_upto_neg 12 well_data;
          test_data = iloc_from_neg 12 well_data
      in case forecast_well cf train_data 12 of
           Inl e \<Rightarrow> Inl e
         | Inr (oil_forecast, gas_forecast) \<Rightarrow>
        (case calculate_mpe (map oil test_data) oil_forecast of
           Inl e \<Rightarrow> Inl e
         | Inr om \<Rightarrow>
        (case calculate_mpe (map gas test_data) gas_forecast of
           Inl e \<Rightarrow> Inl e
         | Inr gm \<Rightarrow> Inr \<lparr>ev_well_api = well, oil_mpe = om, gas_mpe = gm\<rparr>)))"

text \<open>
  \<^verbatim>\<open>
  def evaluate_forecast(df):
      results = []
      for well in df['well_api'].unique():
          try:
              ...
          except Exception as e:
              print(f"Error processing well {well}: {str(e)}")
      return pd.DataFrame(results)
  \<close>
  The loop, with \<open>results\<close> as its accumulator: an exception in the body leaves
  \<open>results\<close> as it is and the loop goes on with the next well.
\<close>

fun evaluate_loop :: "curve_fit \<Rightarrow> dataframe \<Rightarrow> int list \<Rightarrow> evaluation list \<Rightarrow> evaluation list" where
  "evaluate_loop cf df [] results = results"
| "evaluate_loop cf df (well # wells) results =
     (case score_well cf df well of
        Inl e \<Rightarrow> evaluate_loop cf df wells results
      | Inr r \<Rightarrow> evaluate_loop cf df wells (results @ [r]))"

definition evaluate_forecast :: "curve_fit \<Rightarrow> dataframe \<Rightarrow> evaluation list" where
  "evaluate_forecast cf df = evaluate_loop cf df (unique (map well_api df)) []"

section \<open>The core on a store of arrays\<close>

text \<open>
  Whether the core changes the caller's series, and whether a second call sees what the
  first one saw, depends on which arrays are shared. This second model runs the same code
  on an explicit store: a list of arrays, an address being an index, and a new array
  being appended at the end. A data frame is the four addresses of its columns.
\<close>

datatype buffer = Ints "int list" | Floats "fl list"

type_synonym addr = nat

type_synonym store = "buffer list"

definition alloc :: "store \<Rightarrow> buffer \<Rightarrow> store \<times> addr" where
  "alloc h b = (h @ [b], length h)"

definition ints :: "store \<Rightarrow> addr \<Rightarrow> int list" where
  "ints h a = (if a < length h then (case h ! a of Ints xs \<Rightarrow> xs | Floats xs \<Rightarrow> []) else [])"

definition floats :: "store \<Rightarrow> addr \<Rightarrow> fl list" where
  "floats h a = (if a < length h then (case h ! a of Floats xs \<Rightarrow> xs | Ints xs \<Rightarrow> []) else [])"

text \<open>
  \<open>rows_of\<close> reads a frame's rows from the store. \<open>new_frame\<close> is what boolean indexing
  (\<open>df[df['well_api'] == well]\<close>) and \<open>iloc\<close> produce here: a frame on four new arrays.
  (\<open>iloc\<close> may return a view of \<open>well_data\<close> instead; \<open>well_data\<close> is itself such a copy,
  so neither shares an array with \<open>df\<close>.)
\<close>

record frame =
  f_well_api :: addr
  f_prod_date :: addr
  f_oil :: addr
  f_gas :: addr

definition make_row :: "int \<Rightarrow> int \<Rightarrow> fl \<Rightarrow> fl \<Rightarrow> row" where
  "make_row i d x y = \<lparr>well_api = i, prod_date = d, oil = x, gas = y\<rparr>"

definition rows_of :: "store \<Rightarrow> frame \<Rightarrow> dataframe" where
  "rows_of h fr =
     map (\<lambda>(i, d, x, y). make_row i d x y)
       (zip (ints h (f_well_api fr)) (zip (ints h (f_prod_date fr))
          (zip (floats h (f_oil fr)) (floats h (f_gas fr)))))"

definition new_frame :: "store \<Rightarrow> dataframe \<Rightarrow> store \<times> frame" where
  "new_frame h rows =
     (h @ [Ints (map well_api rows), Ints (map prod_date rows),
           Floats (map oil rows), Floats (map gas rows)],
      \<lparr>f_well_api = length h, f_prod_date = length h + 1,
       f_oil = length h + 2, f_gas = length h + 3\<rparr>)"

definition valid_frame :: "store \<Rightarrow> frame \<Rightarrow> bool" where
  "valid_frame h fr =
     (f_well_api fr < length h \<and> f_prod_date fr < length h \<and>
      f_oil fr < length h \<and> f_gas fr < length h \<and>
      (case (h ! f_well_api fr, h ! f_prod_date fr, h ! f_oil fr, h ! f_gas fr) of
         (Ints is, Ints ds, Floats xs, Floats ys) \<Rightarrow>
           length ds = length is \<and> length xs = length is \<and> length ys = length is
       | _ \<Rightarrow> False))"

text \<open>
  The optimizer receives the store and the addresses of \<open>xdata\<close> and \<open>ydata\<close>, and
  returns its result and the store it leaves behind.
\<close>

type_synonym curve_fit_h =
  "store \<Rightarrow> (fl \<Rightarrow> fl \<Rightarrow> fl \<Rightarrow> fl \<Rightarrow> fl) \<Rightarrow> addr \<Rightarrow> addr \<Rightarrow> params \<Rightarrow> params \<times> params
     \<Rightarrow> (error + params) \<times> store"

definition fit_arps_decline_h :: "curve_fit_h \<Rightarrow> store \<Rightarrow> addr \<Rightarrow> addr \<Rightarrow> (error + params) \<times> store" where
  "fit_arps_decline_h cfh h time production =
     (case np_max (floats h production) of
        Inl e \<Rightarrow> (Inl e, h)
      | Inr qi0 \<Rightarrow> cfh h arps_decline time production (qi0, Fin (1 / 10), Fin (1 / 2)) fit_bounds)"

text \<open>
  In \<open>forecast_well\<close>, \<open>time\<close> is a new array (the result of the subtraction), while
  \<open>well_data['oil'].values\<close> and \<open>well_data['gas'].values\<close> are the frame's own arrays:
  the optimizer is handed the caller's data, not a copy. \<open>time[-1]\<close> is read after both
  fits, from the store they leave behind.
\<close>

definition forecast_well_h ::
  "curve_fit_h \<Rightarrow> store \<Rightarrow> frame \<Rightarrow> int \<Rightarrow> (error + fl list \<times> fl list) \<times> store" where
  "forecast_well_h cfh h well_data forecast_months =
     (let (h1, time) = alloc h (Ints (elapsed_days (ints h (f_prod_date well_data))));
          oil_production = f_oil well_data;
          gas_production = f_gas well_data
      in case fit_arps_decline_h cfh h1 time oil_production of
           (Inl e, h2) \<Rightarrow> (Inl e, h2)
         | (Inr (oqi, odi, ob), h2) \<Rightarrow>
        (case fit_arps_decline_h cfh h2 time gas_production of
           (Inl e, h3) \<Rightarrow> (Inl e, h3)
         | (Inr (gqi, gdi, gb), h3) \<Rightarrow>
        (if ints h3 time = [] then (Inl IndexError, h3)
         else case np_arange (last (ints h3 time) + 30)
                     (last (ints h3 time) + 30 * (forecast_months + 1)) 30 of
           Inl e \<Rightarrow> (Inl e, h3)
         | Inr forecast_time \<Rightarrow>
             (Inr (arps_decline_vec (map fl_of_int forecast_time) oqi odi ob,
                   arps_decline_vec (map fl_of_int forecast_time) gqi gdi gb), h3))))"

definition score_well_h :: "curve_fit_h \<Rightarrow> store \<Rightarrow> frame \<Rightarrow> int \<Rightarrow> (error + evaluation) \<times> store" where
  "score_well_h cfh h df well =
     (let (h1, well_data) = new_frame h (filter (\<lambda>r. well_api r = well) (rows_of h df));
          (h2, train_data) = new_frame h1 (iloc_upto_neg 12 (rows_of h1 well_data));
          (h3, test_data) = new_frame h2 (iloc_from_neg 12 (rows_of h2 well_data))
      in case forecast_well_h cfh h3 train_data 12 of
           (Inl e, h4) \<Rightarrow> (Inl e, h4)
         | (Inr (oil_forecast, gas_forecast), h4) \<Rightarrow>
        (case calculate_mpe (floats h4 (f_oil test_data)) oil_forecast of
           Inl e \<Rightarrow> (Inl e, h4)
         | Inr om \<Rightarrow>
        (case calculate_mpe (floats h4 (f_gas test_data)) gas_forecast of
           Inl e \<Rightarrow> (Inl e, h4)
         | Inr gm \<Rightarrow> (Inr \<lparr>ev_well_api = well, oil_mpe = om, gas_mpe = gm\<rparr>, h4))))"

fun evaluate_loop_h ::
  "curve_fit_h \<Rightarrow> store \<Rightarrow> frame \<Rightarrow> int list \<Rightarrow> evaluation list \<Rightarrow> evaluation list \<times> store" where
  "evaluate_loop_h cfh h df [] results = (results, h)"
| "evaluate_loop_h cfh h df (well # wells) results =
     (case score_well_h cfh h df well of
        (Inl e, h') \<Rightarrow> evaluate_loop_h cfh h' df wells results
      | (Inr r, h') \<Rightarrow> evaluate_loop_h cfh h' df wells (results @ [r]))"

definition evaluate_forecast_h :: "curve_fit_h \<Rightarrow> store \<Rightarrow> frame \<Rightarrow> evaluation list \<times> store" where
  "evaluate_forecast_h cfh h df = evaluate_loop_h cfh h df (unique (ints h (f_well_api df))) []"

text \<open>
  Two properties of an optimizer on the store. \<open>read_only\<close>: it changes no array that
  existed when it was called (it may allocate). \<open>stateless cfh cf\<close>: its result is the
  function \<open>cf\<close> of the contents of \<open>xdata\<close> and \<open>ydata\<close> and of its other arguments, and
  of nothing else in the store.
\<close>

definition read_only :: "curve_fit_h \<Rightarrow> bool" where
  "read_only cfh = (\<forall>h f x y p0 bnds. prefix h (snd (cfh h f x y p0 bnds)))"

definition stateless :: "curve_fit_h \<Rightarrow> curve_fit \<Rightarrow> bool" where
  "stateless cfh cf =
     (\<forall>h f x y p0 bnds. fst (cfh h f x y p0 bnds) = cf f (ints h x) (floats h y) p0 bnds)"

section \<open>The accuracy measure as the specification states it\<close>

text \<open>
  \<open>MPE = mean((forecast_i - actual_i) / actual_i) * 100\<close>, over the points of the test
  window. This definition follows the specification, not the code; \<open>calculate_mpe\<close>
  above is the code.
\<close>

definition mpe_spec :: "fl list \<Rightarrow> fl list \<Rightarrow> fl" where
  "mpe_spec actual forecast =
     fl_mul (np_mean (map (\<lambda>i. fl_div (fl_sub (forecast ! i) (actual ! i)) (actual ! i))
                       [0..<length actual]))
            (Fin 100)"

section \<open>Inputs for running the model\<close>

text \<open>
  A stand-in for the optimizer that returns its initial guess (the library does so when
  the residuals at \<open>p0\<close> are already zero, as on a window of one record), and some
  small frames.
\<close>

definition cf_initial_guess :: curve_fit where
  "cf_initial_guess f xs ys p0 bnds = Inr p0"

definition two_rows :: dataframe where
  "two_rows =
     [\<lparr>well_api = 1, prod_date = 19000, oil = Fin 100, gas = Fin 50\<rparr>,
      \<lparr>well_api = 1, prod_date = 19031, oil = Fin 90, gas = Fin 40\<rparr>]"

definition one_row :: dataframe where
  "one_row = [\<lparr>well_api = 1, prod_date = 19000, oil = Fin 100, gas = Fin 50\<rparr>]"

definition thirteen_rows :: dataframe where
  "thirteen_rows =
     [\<lparr>well_api = 7, prod_date = 19000, oil = Fin 100, gas = Fin 50\<rparr>,
      \<lparr>well_api = 7, prod_date = 19030, oil = Fin 16, gas = Fin 8\<rparr>,
      \<lparr>well_api = 7, prod_date = 19060, oil = Fin 6, gas = Fin 3\<rparr>,
      \<lparr>well_api = 7, prod_date = 19090, oil = Fin 3, gas = Fin 2\<rparr>,
      \<lparr>well_api = 7, prod_date = 19120, oil = Fin 2, gas = Fin 1\<rparr>,
      \<lparr>well_api = 7, prod_date = 19150, oil = Fin 2, gas = Fin 1\<rparr>,
      \<lparr>well_api = 7, prod_date = 19180, oil = Fin 1, gas = Fin 1\<rparr>,
      \<lparr>well_api = 7, prod_date = 19210, oil = Fin 1, gas = Fin 1\<rparr>,
      \<lparr>well_api = 7, prod_date = 19240, oil = Fin 1, gas = Fin 1\<rparr>,
      \<lparr>well_api = 7, prod_date = 19270, oil = Fin 1, gas = Fin 1\<rparr>,
      \<lparr>well_api = 7, prod_date = 19300, oil = Fin 1, gas = Fin 1\<rparr>,
      \<lparr>well_api = 7, prod_date = 19330, oil = Fin 1, gas = Fin 1\<rparr>,
      \<lparr>well_api = 7, prod_date = 19360, oil = Fin 1, gas = Fin 1\<rparr>]"

definition two_wells :: dataframe where
  "two_wells = \<lparr>well_api = 3, prod_date = 19000, oil = Fin 0, gas = Fin 0\<rparr> # thirteen_rows"

definition zero_rows :: dataframe where
  "zero_rows =
     [\<lparr>well_api = 9, prod_date = 19000, oil = Fin 100, gas = Fin 50\<rparr>,
      \<lparr>well_api = 9, prod_date = 19030, oil = Fin 16, gas = Fin 8\<rparr>,
      \<lparr>well_api = 9, prod_date = 19060, oil = Fin 6, gas = Fin 3\<rparr>,
      \<lparr>well_api = 9, prod_date = 19090, oil = Fin 0, gas = Fin 2\<rparr>,
      \<lparr>well_api = 9, prod_date = 19120, oil = Fin 2, gas = Fin 1\<rparr>,
      \<lparr>well_api = 9, prod_date = 19150, oil = Fin 2, gas = Fin 1\<rparr>,
      \<lparr>well_api = 9, prod_date = 19180, oil = Fin 1, gas = Fin 0\<rparr>,
      \<lparr>well_api = 9, prod_date = 19210, oil = Fin 1, gas = Fin 0\<rparr>,
      \<lparr>well_api = 9, prod_date = 19240, oil = Fin 1, gas = Fin 1\<rparr>,
      \<lparr>well_api = 9, prod_date = 19270, oil = Fin 1, gas = Fin 1\<rparr>,
      \<lparr>well_api = 9, prod_date = 19300, oil = Fin 1, gas = Fin 1\<rparr>,
      \<lparr>well_api = 9, prod_date = 19330, oil = Fin 1, gas = Fin 1\<rparr>,
      \<lparr>well_api = 9, prod_date = 19360, oil = Fin 1, gas = Fin 1\<rparr>]"

section \<open>The contract of the optimizer\<close>

text \<open>
  What \<open>scipy.optimize.curve_fit\<close> promises when it is given \<open>bounds\<close>: the parameters
  it returns are finite and satisfy \<open>lb \<le> x \<le> ub\<close> componentwise. The theorems that need
  it take \<open>respects_bounds cf\<close> as a hypothesis.
\<close>

definition within_bounds :: "params \<times> params \<Rightarrow> params \<Rightarrow> bool" where
  "within_bounds bnds p =
     (case bnds of ((l1, l2, l3), (u1, u2, u3)) \<Rightarrow>
      case p of (x1, x2, x3) \<Rightarrow>
        fl_le l1 x1 \<and> fl_le x1 u1 \<and> fl_le l2 x2 \<and> fl_le x2 u2 \<and> fl_le l3 x3 \<and> fl_le x3 u3)"

definition finite_params :: "params \<Rightarrow> bool" where
  "finite_params p = (case p of (x1, x2, x3) \<Rightarrow> is_finite x1 \<and> is_finite x2 \<and> is_finite x3)"

definition respects_bounds :: "curve_fit \<Rightarrow> bool" where
  "respects_bounds cf =
     (\<forall>f xs ys p0 bnds p. cf f xs ys p0 bnds = Inr p \<longrightarrow> within_bounds bnds p \<and> finite_params p)"

text \<open>
  A stand-in that meets the contract: it accepts a feasible initial guess and raises
  \<open>ValueError\<close> on an infeasible one, as the library does (\<open>x0 is infeasible\<close>).
\<close>

definition cf_feasible_guess :: curve_fit where
  "cf_feasible_guess f xs ys p0 bnds =
     (if within_bounds bnds p0 \<and> finite_params p0 then Inr p0 else Inl ValueError)"

text \<open>
  An optimizer on the store that copies \<open>ydata\<close> into a work array and accepts the
  initial guess, and the frames above placed in an empty store.
\<close>

definition cfh_copying :: curve_fit_h where
  "cfh_copying h f x y p0 bnds = (Inr p0, h @ [Floats (floats h y)])"

definition two_rows_store :: store where
  "two_rows_store = fst (new_frame [] two_rows)"

definition two_rows_frame :: frame where
  "two_rows_frame = snd (new_frame [] two_rows)"

definition two_wells_store :: store where
  "two_wells_store = fst (new_frame [] two_wells)"

definition two_wells_frame :: frame where
  "two_wells_frame = snd (new_frame [] two_wells)"

section \<open>Properties of the decline model\<close>

lemma arps_decline_finite:
  assumes "0 < b" and "0 \<le> di" and "0 \<le> t"
  shows "arps_decline (Fin t) (Fin qi) (Fin di) (Fin b) =
           Fin (qi / (1 + b * di * t) powr (1 / b))"
proof -
  define B where "B = 1 + b * di * t"
  have pos: "0 < B"
    using assms by (simp add: B_def add_pos_nonneg)
  have base: "fl_add (Fin 1) (fl_mul (fl_mul (Fin b) (Fin di)) (Fin t)) = Fin B"
    by (simp add: B_def)
  have ex: "fl_div (Fin 1) (Fin b) = Fin (1 / b)"
    using assms by simp
  have nz: "1 / b \<noteq> 0"
    using assms by simp
  have pw: "fl_pow (Fin B) (Fin (1 / b)) = Fin (B powr (1 / b))"
    using pos nz by (cases "B = 1") simp_all
  have "B powr (1 / b) \<noteq> 0"
    using pos by simp
  then have "fl_div (Fin qi) (Fin (B powr (1 / b))) = Fin (qi / B powr (1 / b))"
    by simp
  then show ?thesis
    unfolding arps_decline_def base ex pw by (simp add: B_def)
qed

text \<open>
  C5. For all parameters with \<open>qi \<ge> 0\<close>, \<open>b > 0\<close> and \<open>di\<close> in \<open>[0, 1]\<close>, the decline
  model at \<open>t = 0\<close> returns exactly \<open>qi\<close>.
\<close>

theorem arps_decline_at_zero:
  assumes "0 \<le> qi" and "0 < b" and "0 \<le> di" and "di \<le> 1"
  shows "arps_decline (Fin 0) (Fin qi) (Fin di) (Fin b) = Fin qi"
  using assms by (simp add: arps_decline_def)

theorem arps_decline_at_zero_witness:
  "arps_decline (Fin 0) (Fin 1000) (Fin (8 / 100)) (Fin (8 / 10)) = Fin 1000"
proof -
  have "(0::real) \<le> 1000" and "(0::real) < 8 / 10" and "(0::real) \<le> 8 / 100"
    and "(8 / 100 :: real) \<le> 1"
    by simp_all
  then show ?thesis
    by (rule arps_decline_at_zero)
qed

text \<open>
  C6. For fixed valid parameters (\<open>qi \<ge> 0\<close>, \<open>di\<close> in \<open>[0, 1]\<close>, \<open>b > 0\<close>) and all
  \<open>0 \<le> t1 \<le> t2\<close>, the decline model satisfies \<open>decline(t2) \<le> decline(t1)\<close>: it is
  monotonically non-increasing in \<open>t\<close>.
\<close>

theorem arps_decline_nonincreasing:
  assumes "0 \<le> qi" and "0 < b" and "0 \<le> di" and "di \<le> 1" and "0 \<le> t1" and "t1 \<le> t2"
  shows "fl_le (arps_decline (Fin t2) (Fin qi) (Fin di) (Fin b))
               (arps_decline (Fin t1) (Fin qi) (Fin di) (Fin b))"
proof -
  let ?a = "1 / b"
  let ?B1 = "1 + b * di * t1" and ?B2 = "1 + b * di * t2"
  have t2: "0 \<le> t2"
    using assms by simp
  have bd: "0 \<le> b * di"
    using assms by simp
  have B1: "0 < ?B1"
    using bd assms by (simp add: add_pos_nonneg)
  have "b * di * t1 \<le> b * di * t2"
    using bd assms by (simp add: mult_left_mono)
  then have B12: "?B1 \<le> ?B2"
    by simp
  have a: "0 \<le> ?a"
    using assms by simp
  have pw: "?B1 powr ?a \<le> ?B2 powr ?a"
    using a B1 B12 by (intro powr_mono2) simp_all
  have p1: "0 < ?B1 powr ?a"
    using B1 by simp
  have p2: "0 < ?B2 powr ?a"
    using B1 B12 by simp
  have "qi / ?B2 powr ?a \<le> qi / ?B1 powr ?a"
    using pw p1 p2 assms by (intro divide_left_mono) simp_all
  then show ?thesis
    using assms t2 by (simp add: arps_decline_finite)
qed

theorem arps_decline_nonincreasing_witness:
  "fl_le (arps_decline (Fin 360) (Fin 1000) (Fin (8 / 100)) (Fin (8 / 10)))
         (arps_decline (Fin 30) (Fin 1000) (Fin (8 / 100)) (Fin (8 / 10)))"
proof -
  have "(0::real) \<le> 1000" and "(0::real) < 8 / 10" and "(0::real) \<le> 8 / 100"
    and "(8 / 100 :: real) \<le> 1" and "(0::real) \<le> 30" and "(30::real) \<le> 360"
    by simp_all
  then show ?thesis
    by (rule arps_decline_nonincreasing)
qed

section \<open>Properties of the forecaster\<close>

lemma np_arange_30:
  "np_arange (l + 30) (l + 30 * (m + 1)) 30 = Inr (map (\<lambda>k. l + 30 * (int k + 1)) [0..<nat m])"
proof -
  have "(l + 30 * (m + 1) - (l + 30) + 30 - 1) div 30 = m"
    by simp
  then show ?thesis
    by (simp add: np_arange_def algebra_simps)
qed

lemma elapsed_days_Nil_iff: "elapsed_days ds = [] \<longleftrightarrow> ds = []"
  by (cases ds) (simp_all add: elapsed_days_def)

lemma length_elapsed_days: "length (elapsed_days ds) = length ds"
  by (cases ds) (simp_all add: elapsed_days_def)

lemma forecast_well_eq:
  "forecast_well cf well_data m =
     (case fit_arps_decline cf (elapsed_days (map prod_date well_data)) (map oil well_data) of
        Inl e \<Rightarrow> Inl e
      | Inr (oqi, odi, ob) \<Rightarrow>
     (case fit_arps_decline cf (elapsed_days (map prod_date well_data)) (map gas well_data) of
        Inl e \<Rightarrow> Inl e
      | Inr (gqi, gdi, gb) \<Rightarrow>
        if well_data = [] then Inl IndexError
        else Inr (map (\<lambda>k. arps_decline
                     (fl_of_int (last (elapsed_days (map prod_date well_data)) + 30 * (int k + 1)))
                     oqi odi ob) [0..<nat m],
                  map (\<lambda>k. arps_decline
                     (fl_of_int (last (elapsed_days (map prod_date well_data)) + 30 * (int k + 1)))
                     gqi gdi gb) [0..<nat m])))"
  unfolding forecast_well_def Let_def np_arange_30 arps_decline_vec_def
  by (simp add: elapsed_days_Nil_iff comp_def split: sum.splits prod.splits)

text \<open>
  C1. For every historical window and every horizon \<open>m\<close>, a call of \<open>forecast_well\<close> that
  returns has evaluated the two fitted decline models at exactly \<open>m\<close> future offsets, the
  \<open>k\<close>-th of them (from 0) being the last historical offset plus \<open>30 * (k + 1)\<close>, and
  returns two sequences of length \<open>m\<close> in that order. It returns exactly when the window
  is not empty and both fits succeed.
\<close>

theorem forecast_well_offsets:
  "forecast_well cf well_data m = Inr (oil_forecast, gas_forecast) \<longleftrightarrow>
     well_data \<noteq> [] \<and>
     (\<exists>oqi odi ob gqi gdi gb.
        fit_arps_decline cf (elapsed_days (map prod_date well_data)) (map oil well_data)
          = Inr (oqi, odi, ob) \<and>
        fit_arps_decline cf (elapsed_days (map prod_date well_data)) (map gas well_data)
          = Inr (gqi, gdi, gb) \<and>
        oil_forecast =
          map (\<lambda>k. arps_decline
                 (fl_of_int (last (elapsed_days (map prod_date well_data)) + 30 * (int k + 1)))
                 oqi odi ob) [0..<nat m] \<and>
        gas_forecast =
          map (\<lambda>k. arps_decline
                 (fl_of_int (last (elapsed_days (map prod_date well_data)) + 30 * (int k + 1)))
                 gqi gdi gb) [0..<nat m] \<and>
        length oil_forecast = nat m \<and> length gas_forecast = nat m)"
  unfolding forecast_well_eq
  by (auto split: sum.splits prod.splits)


theorem forecast_well_offsets_witness:
  "forecast_well cf_initial_guess two_rows 2 =
     Inr ([arps_decline (Fin 61) (Fin 100) (Fin (1 / 10)) (Fin (1 / 2)),
           arps_decline (Fin 91) (Fin 100) (Fin (1 / 10)) (Fin (1 / 2))],
          [arps_decline (Fin 61) (Fin 50) (Fin (1 / 10)) (Fin (1 / 2)),
           arps_decline (Fin 91) (Fin 50) (Fin (1 / 10)) (Fin (1 / 2))])"
proof -
  have t: "elapsed_days (map prod_date two_rows) = [0, 31]"
    by (simp add: two_rows_def elapsed_days_def)
  have fo: "fit_arps_decline cf_initial_guess [0, 31] (map oil two_rows)
              = Inr (Fin 100, Fin (1 / 10), Fin (1 / 2))"
    by (simp add: two_rows_def fit_arps_decline_def np_max_def fl_max_def cf_initial_guess_def)
  have fg: "fit_arps_decline cf_initial_guess [0, 31] (map gas two_rows)
              = Inr (Fin 50, Fin (1 / 10), Fin (1 / 2))"
    by (simp add: two_rows_def fit_arps_decline_def np_max_def fl_max_def cf_initial_guess_def)
  have ne: "two_rows \<noteq> []"
    by (simp add: two_rows_def)
  have up: "[0..<2] = [0, Suc 0]"
    by (simp add: numeral_2_eq_2)
  show ?thesis
    by (rule iffD2 [OF forecast_well_offsets])
       (simp add: ne t fo fg up fl_of_int_def)
qed

section \<open>Windows with fewer than two distinct dates\<close>

lemma arps_val: "arps_decline (Fin 30) (Fin 100) (Fin (1 / 10)) (Fin (1 / 2)) = Fin 16"
  by (simp add: arps_decline_def power2_eq_square)

lemma arps_val2: "arps_decline (Fin 30) (Fin 50) (Fin (1 / 10)) (Fin (1 / 2)) = Fin 8"
  by (simp add: arps_decline_def power2_eq_square)

text \<open>
  C2 as stated (a window with fewer than 2 distinct dates makes \<open>forecast_well\<close> fail fast
  with an InsufficientDataError) does not hold: the function has no check on the dates. On a
  window of one record, with an optimizer that accepts the initial guess (the residual at
  \<open>p0\<close> is zero there), it returns a forecast.
\<close>

theorem forecast_well_one_record_counterexample:
  "card (set (map prod_date one_row)) = 1 \<and>
   forecast_well cf_initial_guess one_row 1 = Inr ([Fin 16], [Fin 8])"
proof -
  have t: "elapsed_days (map prod_date one_row) = [0]"
    by (simp add: one_row_def elapsed_days_def)
  have fo: "fit_arps_decline cf_initial_guess [0] (map oil one_row)
              = Inr (Fin 100, Fin (1 / 10), Fin (1 / 2))"
    by (simp add: one_row_def fit_arps_decline_def np_max_def cf_initial_guess_def)
  have fg: "fit_arps_decline cf_initial_guess [0] (map gas one_row)
              = Inr (Fin 50, Fin (1 / 10), Fin (1 / 2))"
    by (simp add: one_row_def fit_arps_decline_def np_max_def cf_initial_guess_def)
  have ne: "one_row \<noteq> []"
    by (simp add: one_row_def)
  have c: "card (set (map prod_date one_row)) = 1"
    by (simp add: one_row_def)
  have "forecast_well cf_initial_guess one_row 1 = Inr ([Fin 16], [Fin 8])"
    unfolding forecast_well_eq t fo fg
    using ne by (simp add: fl_of_int_def arps_val arps_val2)
  then show ?thesis
    using c by simp
qed

lemma few_dates_all_equal:
  assumes "card (set (d # rest)) < 2"
  shows "\<forall>x \<in> set rest. x = d"
proof -
  have "card (set (d # rest)) \<le> Suc 0"
    using assms by simp
  then have "\<forall>a \<in> set (d # rest). \<forall>b \<in> set (d # rest). a = b"
    using card_le_Suc0_iff_eq [of "set (d # rest)"] by blast
  then show ?thesis
    by simp
qed

lemma foldl_min_const: "\<forall>x \<in> set rest. x = d \<Longrightarrow> foldl min d rest = (d::int)"
  by (induction rest) simp_all

lemma map_sub_const:
  "\<forall>x \<in> set rest. x = d \<Longrightarrow> map (\<lambda>x. x - d) rest = replicate (length rest) (0::int)"
  by (induction rest) simp_all

lemma elapsed_days_few_dates:
  assumes "card (set ds) < 2"
  shows "elapsed_days ds = replicate (length ds) 0"
proof (cases ds)
  case Nil
  then show ?thesis by (simp add: elapsed_days_def)
next
  case (Cons d rest)
  have "card (set (d # rest)) < 2"
    using assms unfolding Cons .
  then have eq: "\<forall>x \<in> set rest. x = d"
    by (rule few_dates_all_equal)
  have m: "foldl min d rest = d"
    using eq by (rule foldl_min_const)
  have r: "map (\<lambda>x. x - d) rest = replicate (length rest) 0"
    using eq by (rule map_sub_const)
  have "elapsed_days (d # rest) = (d - d) # map (\<lambda>x. x - d) rest"
    unfolding elapsed_days_def list.case m by simp
  also have "\<dots> = replicate (length (d # rest)) 0"
    unfolding r by simp
  finally show ?thesis
    unfolding Cons .
qed

text \<open>
  C2, amended. On a window with fewer than 2 distinct dates \<open>forecast_well\<close> makes no check
  of its own: an empty window fails with the \<open>ValueError\<close> of \<open>max()\<close> on the empty
  production array, before the optimizer is called; on a non-empty window all offsets
  are 0, the fitter is called on them, and the result is the fitter's error or the
  forecast at the offsets 30, 60, ...
\<close>

theorem forecast_well_few_dates:
  assumes "card (set (map prod_date well_data)) < 2"
  shows "(well_data = [] \<longrightarrow> forecast_well cf well_data m = Inl ValueError) \<and>
         (well_data \<noteq> [] \<longrightarrow>
            elapsed_days (map prod_date well_data) = replicate (length well_data) 0 \<and>
            forecast_well cf well_data m =
              (case fit_arps_decline cf (replicate (length well_data) 0) (map oil well_data) of
                 Inl e \<Rightarrow> Inl e
               | Inr (oqi, odi, ob) \<Rightarrow>
              (case fit_arps_decline cf (replicate (length well_data) 0) (map gas well_data) of
                 Inl e \<Rightarrow> Inl e
               | Inr (gqi, gdi, gb) \<Rightarrow>
                   Inr (map (\<lambda>k. arps_decline (fl_of_int (30 * (int k + 1))) oqi odi ob)
                          [0..<nat m],
                        map (\<lambda>k. arps_decline (fl_of_int (30 * (int k + 1))) gqi gdi gb)
                          [0..<nat m]))))"
proof (intro conjI impI)
  assume "well_data = []"
  then show "forecast_well cf well_data m = Inl ValueError"
    by (simp add: forecast_well_def elapsed_days_def fit_arps_decline_def np_max_def)
next
  assume ne: "well_data \<noteq> []"
  show t: "elapsed_days (map prod_date well_data) = replicate (length well_data) 0"
    using elapsed_days_few_dates [OF assms] by simp
  have l: "last (replicate (length well_data) (0::int)) = 0"
    using ne by simp
  show "forecast_well cf well_data m =
              (case fit_arps_decline cf (replicate (length well_data) 0) (map oil well_data) of
                 Inl e \<Rightarrow> Inl e
               | Inr (oqi, odi, ob) \<Rightarrow>
              (case fit_arps_decline cf (replicate (length well_data) 0) (map gas well_data) of
                 Inl e \<Rightarrow> Inl e
               | Inr (gqi, gdi, gb) \<Rightarrow>
                   Inr (map (\<lambda>k. arps_decline (fl_of_int (30 * (int k + 1))) oqi odi ob)
                          [0..<nat m],
                        map (\<lambda>k. arps_decline (fl_of_int (30 * (int k + 1))) gqi gdi gb)
                          [0..<nat m])))"
    unfolding forecast_well_eq t l using ne
    by (simp split: sum.splits prod.splits)
qed


theorem forecast_well_few_dates_witness:
  "forecast_well cf_initial_guess [] 12 = Inl ValueError \<and>
   elapsed_days (map prod_date one_row) = [0] \<and>
   forecast_well cf_initial_guess one_row 1 =
     Inr ([arps_decline (Fin 30) (Fin 100) (Fin (1 / 10)) (Fin (1 / 2))],
          [arps_decline (Fin 30) (Fin 50) (Fin (1 / 10)) (Fin (1 / 2))])"
proof -
  have "card (set (map prod_date ([]::dataframe))) < 2"
    by simp
  from forecast_well_few_dates [OF this, of cf_initial_guess 12]
  have a: "forecast_well cf_initial_guess [] 12 = Inl ValueError"
    by simp
  have "card (set (map prod_date one_row)) < 2"
    by (simp add: one_row_def)
  from forecast_well_few_dates [OF this, of cf_initial_guess 1]
  have b: "elapsed_days (map prod_date one_row) = [0] \<and>
   forecast_well cf_initial_guess one_row 1 =
     Inr ([arps_decline (Fin 30) (Fin 100) (Fin (1 / 10)) (Fin (1 / 2))],
          [arps_decline (Fin 30) (Fin 50) (Fin (1 / 10)) (Fin (1 / 2))])"
    by (simp add: one_row_def fit_arps_decline_def np_max_def cf_initial_guess_def fl_of_int_def)
  show ?thesis
    using a b by simp
qed

section \<open>Properties of the evaluator\<close>

lemma map2_index:
  "length xs = length ys \<Longrightarrow> map2 f xs ys = map (\<lambda>i. f (xs ! i) (ys ! i)) [0..<length ys]"
  by (rule nth_equalityI) simp_all

lemma broadcast2_same_length:
  "length xs = length ys \<Longrightarrow> broadcast2 f xs ys = Inr (map2 f xs ys)"
  by (simp add: broadcast2_def)

lemma calculate_mpe_same_length:
  assumes "length actual = length forecast"
  shows "calculate_mpe actual forecast = Inr (mpe_spec actual forecast)"
proof -
  have d: "broadcast2 fl_sub forecast actual = Inr (map2 fl_sub forecast actual)"
    using assms by (simp add: broadcast2_same_length)
  have q: "broadcast2 fl_div (map2 fl_sub forecast actual) actual
             = Inr (map2 fl_div (map2 fl_sub forecast actual) actual)"
    using assms by (simp add: broadcast2_same_length)
  have e: "map2 fl_div (map2 fl_sub forecast actual) actual
          = map (\<lambda>i. fl_div (fl_sub (forecast ! i) (actual ! i)) (actual ! i)) [0..<length actual]"
    using assms by (intro nth_equalityI) simp_all
  show ?thesis
    by (simp add: calculate_mpe_def d q e mpe_spec_def)
qed

lemma forecast_well_Inr_D:
  assumes "forecast_well cf wd m = Inr (a, b)"
  shows "wd \<noteq> [] \<and> length a = nat m \<and> length b = nat m"
  using assms unfolding forecast_well_eq
  by (auto split: sum.splits prod.splits if_splits)

lemma train_nonempty_test_12:
  assumes "take (length wd - 12) wd \<noteq> []"
  shows "length (drop (length wd - 12) wd) = 12"
proof -
  have "length wd - 12 \<noteq> 0"
    using assms by (cases "length wd - 12") simp_all
  then show ?thesis
    by simp
qed

lemma score_well_eq:
  "score_well cf df w =
     (case forecast_well cf
             (take (length (filter (\<lambda>r. well_api r = w) df) - 12)
                (filter (\<lambda>r. well_api r = w) df)) 12 of
        Inl e \<Rightarrow> Inl e
      | Inr (oil_forecast, gas_forecast) \<Rightarrow>
          Inr \<lparr>ev_well_api = w,
               oil_mpe = mpe_spec
                 (map oil (drop (length (filter (\<lambda>r. well_api r = w) df) - 12)
                    (filter (\<lambda>r. well_api r = w) df))) oil_forecast,
               gas_mpe = mpe_spec
                 (map gas (drop (length (filter (\<lambda>r. well_api r = w) df) - 12)
                    (filter (\<lambda>r. well_api r = w) df))) gas_forecast\<rparr>)"
proof -
  define wd where "wd = filter (\<lambda>r. well_api r = w) df"
  define train where "train = take (length wd - 12) wd"
  define test where "test = drop (length wd - 12) wd"
  have sw: "score_well cf df w =
     (case forecast_well cf train 12 of
        Inl e \<Rightarrow> Inl e
      | Inr (oil_forecast, gas_forecast) \<Rightarrow>
        (case calculate_mpe (map oil test) oil_forecast of
           Inl e \<Rightarrow> Inl e
         | Inr om \<Rightarrow>
        (case calculate_mpe (map gas test) gas_forecast of
           Inl e \<Rightarrow> Inl e
         | Inr gm \<Rightarrow> Inr \<lparr>ev_well_api = w, oil_mpe = om, gas_mpe = gm\<rparr>)))"
    unfolding score_well_def Let_def wd_def train_def test_def
      iloc_upto_neg_def iloc_from_neg_def
    by (rule refl)
  show ?thesis
  proof (cases "forecast_well cf train 12")
    case (Inl e)
    then show ?thesis
      unfolding sw by (simp add: train_def wd_def)
  next
    case (Inr p)
    obtain a b where p: "p = (a, b)"
      by (cases p)
    have fw: "forecast_well cf train 12 = Inr (a, b)"
      using Inr p by simp
    from forecast_well_Inr_D [OF fw]
    have ne: "train \<noteq> []" and la: "length a = 12" and lb: "length b = 12"
      by simp_all
    have lt: "length test = 12"
      using ne unfolding train_def test_def by (rule train_nonempty_test_12)
    have mo: "calculate_mpe (map oil test) a = Inr (mpe_spec (map oil test) a)"
      using la lt by (intro calculate_mpe_same_length) simp
    have mg: "calculate_mpe (map gas test) b = Inr (mpe_spec (map gas test) b)"
      using lb lt by (intro calculate_mpe_same_length) simp
    have "score_well cf df w =
            Inr \<lparr>ev_well_api = w, oil_mpe = mpe_spec (map oil test) a,
                 gas_mpe = mpe_spec (map gas test) b\<rparr>"
      unfolding sw by (simp add: fw mo mg)
    then show ?thesis
      using fw by (simp add: train_def test_def wd_def)
  qed
qed

text \<open>
  C4. For every well scored by \<open>evaluate_forecast\<close>, the series is split into train = all
  but the last 12 records and test = the last 12 records, the forecaster runs on train,
  and each commodity's reported accuracy is \<open>mean((forecast_i - actual_i) / actual_i) * 100\<close>
  over the 12 test points. A well is scored exactly when the forecaster returns on its
  train window.
\<close>

theorem score_well_split_mpe:
  fixes df :: dataframe and w :: int
  defines "wd \<equiv> filter (\<lambda>x. well_api x = w) df"
  defines "train \<equiv> take (length wd - 12) wd" and "test \<equiv> drop (length wd - 12) wd"
  shows "score_well cf df w = Inr r \<longleftrightarrow>
     (\<exists>oil_forecast gas_forecast.
        forecast_well cf train 12 = Inr (oil_forecast, gas_forecast) \<and>
        wd = train @ test \<and> length test = 12 \<and>
        length oil_forecast = 12 \<and> length gas_forecast = 12 \<and>
        r = \<lparr>ev_well_api = w,
             oil_mpe = mpe_spec (map oil test) oil_forecast,
             gas_mpe = mpe_spec (map gas test) gas_forecast\<rparr>)"
proof
  assume a: "score_well cf df w = Inr r"
  then obtain a' b' where fw: "forecast_well cf train 12 = Inr (a', b')"
    and r: "r = \<lparr>ev_well_api = w, oil_mpe = mpe_spec (map oil test) a',
                   gas_mpe = mpe_spec (map gas test) b'\<rparr>"
    unfolding score_well_eq wd_def train_def test_def
    by (auto split: sum.splits prod.splits)
  from forecast_well_Inr_D [OF fw]
  have ne: "train \<noteq> []" and la: "length a' = 12" and lb: "length b' = 12"
    by simp_all
  have lt: "length test = 12"
    using ne unfolding train_def test_def by (rule train_nonempty_test_12)
  have "wd = train @ test"
    by (simp add: train_def test_def)
  then show "\<exists>oil_forecast gas_forecast.
        forecast_well cf train 12 = Inr (oil_forecast, gas_forecast) \<and>
        wd = train @ test \<and> length test = 12 \<and>
        length oil_forecast = 12 \<and> length gas_forecast = 12 \<and>
        r = \<lparr>ev_well_api = w,
             oil_mpe = mpe_spec (map oil test) oil_forecast,
             gas_mpe = mpe_spec (map gas test) gas_forecast\<rparr>"
    using fw r la lb lt by blast
next
  assume "\<exists>oil_forecast gas_forecast.
        forecast_well cf train 12 = Inr (oil_forecast, gas_forecast) \<and>
        wd = train @ test \<and> length test = 12 \<and>
        length oil_forecast = 12 \<and> length gas_forecast = 12 \<and>
        r = \<lparr>ev_well_api = w,
             oil_mpe = mpe_spec (map oil test) oil_forecast,
             gas_mpe = mpe_spec (map gas test) gas_forecast\<rparr>"
  then obtain a' b' where fw: "forecast_well cf train 12 = Inr (a', b')"
    and r: "r = \<lparr>ev_well_api = w, oil_mpe = mpe_spec (map oil test) a',
                   gas_mpe = mpe_spec (map gas test) b'\<rparr>"
    by blast
  show "score_well cf df w = Inr r"
    using fw r unfolding score_well_eq wd_def train_def test_def
    by simp
qed

lemma forecast_well_initial_guess:
  assumes "wd \<noteq> []"
  shows "\<exists>a b. forecast_well cf_initial_guess wd m = Inr (a, b)"
proof -
  have o: "map oil wd \<noteq> []" and g: "map gas wd \<noteq> []"
    using assms by simp_all
  obtain po where po: "fit_arps_decline cf_initial_guess (elapsed_days (map prod_date wd)) (map oil wd) = Inr po"
    using o by (cases "map oil wd") (simp_all add: fit_arps_decline_def np_max_def cf_initial_guess_def)
  obtain pg where pg: "fit_arps_decline cf_initial_guess (elapsed_days (map prod_date wd)) (map gas wd) = Inr pg"
    using g by (cases "map gas wd") (simp_all add: fit_arps_decline_def np_max_def cf_initial_guess_def)
  show ?thesis
    unfolding forecast_well_eq po pg using assms
    by (cases po, cases pg) simp
qed

theorem score_well_split_mpe_witness:
  "\<exists>oil_forecast gas_forecast.
     forecast_well cf_initial_guess (take 1 thirteen_rows) 12 = Inr (oil_forecast, gas_forecast) \<and>
     length (drop 1 thirteen_rows) = 12 \<and>
     score_well cf_initial_guess thirteen_rows 7 =
       Inr \<lparr>ev_well_api = 7,
            oil_mpe = mpe_spec (map oil (drop 1 thirteen_rows)) oil_forecast,
            gas_mpe = mpe_spec (map gas (drop 1 thirteen_rows)) gas_forecast\<rparr>"
proof -
  have f: "filter (\<lambda>x. well_api x = 7) thirteen_rows = thirteen_rows"
    by (simp add: thirteen_rows_def)
  have l: "length thirteen_rows - 12 = 1"
    by (simp add: thirteen_rows_def)
  have ne: "take 1 thirteen_rows \<noteq> []"
    by (simp add: thirteen_rows_def)
  obtain a b where fw: "forecast_well cf_initial_guess (take 1 thirteen_rows) 12 = Inr (a, b)"
    using forecast_well_initial_guess [OF ne] by blast
  from forecast_well_Inr_D [OF fw]
  have la: "length a = 12" and lb: "length b = 12"
    by simp_all
  have lt: "length (drop 1 thirteen_rows) = 12"
    by (simp add: thirteen_rows_def)
  have "score_well cf_initial_guess thirteen_rows 7 =
       Inr \<lparr>ev_well_api = 7,
            oil_mpe = mpe_spec (map oil (drop 1 thirteen_rows)) a,
            gas_mpe = mpe_spec (map gas (drop 1 thirteen_rows)) b\<rparr>"
    by (rule iffD2 [OF score_well_split_mpe]) (use fw la lb lt in \<open>simp add: f l\<close>)
  then show ?thesis
    using fw lt by blast
qed

section \<open>Failure isolation in the batch\<close>

lemma set_unique: "set (unique xs) = set xs"
  by (induction xs rule: unique.induct) auto

lemma distinct_unique: "distinct (unique xs)"
  by (induction xs rule: unique.induct) (auto simp add: set_unique)

lemma evaluate_loop_eq:
  "evaluate_loop cf df wells results =
     results @ concat (map (\<lambda>w. case score_well cf df w of Inl e \<Rightarrow> [] | Inr r \<Rightarrow> [r]) wells)"
  by (induction wells arbitrary: results) (simp_all split: sum.splits)

lemma score_well_api: "score_well cf df w = Inr r \<Longrightarrow> ev_well_api r = w"
  unfolding score_well_eq by (auto split: sum.splits prod.splits)

lemma scored_ids:
  "map ev_well_api (concat (map (\<lambda>w. case score_well cf df w of Inl e \<Rightarrow> [] | Inr r \<Rightarrow> [r]) wells))
     = filter (\<lambda>w. \<not> isl (score_well cf df w)) wells"
  by (induction wells) (auto split: sum.splits dest: score_well_api)

lemma scored_set:
  "set (concat (map (\<lambda>w. case score_well cf df w of Inl e \<Rightarrow> [] | Inr r \<Rightarrow> [r]) wells))
     = {r. \<exists>w \<in> set wells. score_well cf df w = Inr r}"
  by (induction wells) (auto split: sum.splits)

text \<open>
  C3. For every batch of wells, \<open>evaluate_forecast\<close> never propagates a single well's
  fitting or data error: it always returns its result collection (it is a total function
  into lists of records), a well whose processing raises is left out of it, and every
  other well has its record there, in the order of first appearance.
\<close>

theorem evaluate_forecast_isolates_failures:
  "map ev_well_api (evaluate_forecast cf df)
     = filter (\<lambda>w. \<not> isl (score_well cf df w)) (unique (map well_api df)) \<and>
   distinct (map ev_well_api (evaluate_forecast cf df)) \<and>
   set (evaluate_forecast cf df)
     = {r. \<exists>w \<in> set (map well_api df). score_well cf df w = Inr r}"
  unfolding evaluate_forecast_def evaluate_loop_eq
  by (simp only: append_Nil scored_ids scored_set set_unique distinct_unique distinct_filter
      simp_thms)

theorem evaluate_forecast_isolates_failures_witness:
  "score_well cf_initial_guess two_wells 3 = Inl ValueError \<and>
   map ev_well_api (evaluate_forecast cf_initial_guess two_wells) = [7]"
proof -
  have u: "unique (map well_api two_wells) = [3, 7]"
    by (simp add: two_wells_def thirteen_rows_def)
  have f3: "filter (\<lambda>r. well_api r = 3) two_wells
              = [\<lparr>well_api = 3, prod_date = 19000, oil = Fin 0, gas = Fin 0\<rparr>]"
    by (simp add: two_wells_def thirteen_rows_def)
  have e: "forecast_well cf_initial_guess [] 12 = Inl ValueError"
    by (simp add: forecast_well_eq elapsed_days_def fit_arps_decline_def np_max_def)
  have bad: "score_well cf_initial_guess two_wells 3 = Inl ValueError"
    unfolding score_well_eq f3 by (simp add: e)
  have f7: "filter (\<lambda>r. well_api r = 7) two_wells = thirteen_rows"
    by (simp add: two_wells_def thirteen_rows_def)
  have l: "length thirteen_rows - 12 = 1"
    by (simp add: thirteen_rows_def)
  have ne: "take 1 thirteen_rows \<noteq> []"
    by (simp add: thirteen_rows_def)
  obtain a b where fw: "forecast_well cf_initial_guess (take 1 thirteen_rows) 12 = Inr (a, b)"
    using forecast_well_initial_guess [OF ne] by blast
  have good: "\<not> isl (score_well cf_initial_guess two_wells 7)"
    unfolding score_well_eq f7 l fw by simp
  have "map ev_well_api (evaluate_forecast cf_initial_guess two_wells) = [7]"
    using evaluate_forecast_isolates_failures [of cf_initial_guess two_wells] bad good
    by (simp add: u)
  then show ?thesis
    using bad by simp
qed

section \<open>Zero actual values\<close>

lemma div_zero_not_finite: "\<not> is_finite (fl_div x (Fin 0))"
  by (cases x) simp_all

lemma add_not_finite_left: "\<not> is_finite x \<Longrightarrow> \<not> is_finite (fl_add x y)"
  by (cases x; cases y) simp_all

lemma add_not_finite_right: "\<not> is_finite y \<Longrightarrow> \<not> is_finite (fl_add x y)"
  by (cases x; cases y) simp_all

lemma foldl_add_not_finite_acc:
  "\<not> is_finite a \<Longrightarrow> \<not> is_finite (foldl fl_add a xs)"
  by (induction xs arbitrary: a) (simp_all add: add_not_finite_left)

lemma foldl_add_not_finite_elem:
  "\<exists>x \<in> set xs. \<not> is_finite x \<Longrightarrow> \<not> is_finite (foldl fl_add a xs)"
proof (induction xs arbitrary: a)
  case Nil
  then show ?case by simp
next
  case (Cons y ys)
  show ?case
  proof (cases "is_finite y")
    case True
    then have "\<exists>x \<in> set ys. \<not> is_finite x"
      using Cons.prems by auto
    then show ?thesis
      using Cons.IH by simp
  next
    case False
    then have "\<not> is_finite (fl_add a y)"
      by (rule add_not_finite_right)
    then show ?thesis
      by (simp add: foldl_add_not_finite_acc)
  qed
qed

lemma div_fin_not_finite: "\<not> is_finite x \<Longrightarrow> \<not> is_finite (fl_div x (Fin c))"
  by (cases x) simp_all

lemma mul_100_not_finite: "\<not> is_finite x \<Longrightarrow> \<not> is_finite (fl_mul x (Fin 100))"
  by (cases x) simp_all

lemma mpe_spec_not_finite:
  assumes "Fin 0 \<in> set actual"
  shows "\<not> is_finite (mpe_spec actual forecast)"
proof -
  obtain i where i: "i < length actual" and z: "actual ! i = Fin 0"
    using assms by (auto simp add: in_set_conv_nth)
  let ?ratio = "map (\<lambda>i. fl_div (fl_sub (forecast ! i) (actual ! i)) (actual ! i))
                  [0..<length actual]"
  have "fl_div (fl_sub (forecast ! i) (actual ! i)) (actual ! i) \<in> set ?ratio"
    using i by simp
  moreover have "\<not> is_finite (fl_div (fl_sub (forecast ! i) (actual ! i)) (actual ! i))"
    unfolding z by (rule div_zero_not_finite)
  ultimately have "\<exists>x \<in> set ?ratio. \<not> is_finite x"
    by blast
  then have "\<not> is_finite (np_sum ?ratio)"
    unfolding np_sum_def by (rule foldl_add_not_finite_elem)
  then have "\<not> is_finite (np_mean ?ratio)"
    unfolding np_mean_def by (rule div_fin_not_finite)
  then show ?thesis
    unfolding mpe_spec_def by (rule mul_100_not_finite)
qed

lemma calculate_mpe_inf: "calculate_mpe [Fin 0, Fin 2] [Fin 1, Fin 3] = Inr PInf"
  by (simp add: calculate_mpe_def broadcast2_def np_mean_def np_sum_def fl_sub_def)

lemma calculate_mpe_nan: "calculate_mpe [Fin 0, Fin 2] [Fin 0, Fin 3] = Inr NaN"
  by (simp add: calculate_mpe_def broadcast2_def np_mean_def np_sum_def fl_sub_def)

lemma calculate_mpe_finite: "calculate_mpe [Fin 4, Fin 2] [Fin 5, Fin 3] = Inr (Fin (75 / 2))"
  by (simp add: calculate_mpe_def broadcast2_def np_mean_def np_sum_def fl_sub_def)

text \<open>
  C10. For every well whose test window contains a zero actual value (and whose train
  window the forecaster handles), \<open>calculate_mpe\<close> performs the division without raising
  and yields a non-finite result (an infinity or \<open>nan\<close>), and \<open>evaluate_forecast\<close> still
  appends that well's record, with the non-finite value, to the result collection.
\<close>

theorem zero_actual_nonfinite_mpe:
  fixes df :: dataframe and w :: int
  defines "wd \<equiv> filter (\<lambda>x. well_api x = w) df"
  defines "train \<equiv> take (length wd - 12) wd" and "test \<equiv> drop (length wd - 12) wd"
  assumes fw: "forecast_well cf train 12 = Inr (oil_forecast, gas_forecast)"
  shows "\<exists>r. score_well cf df w = Inr r \<and> r \<in> set (evaluate_forecast cf df) \<and>
           calculate_mpe (map oil test) oil_forecast = Inr (oil_mpe r) \<and>
           calculate_mpe (map gas test) gas_forecast = Inr (gas_mpe r) \<and>
           (Fin 0 \<in> set (map oil test) \<longrightarrow> \<not> is_finite (oil_mpe r)) \<and>
           (Fin 0 \<in> set (map gas test) \<longrightarrow> \<not> is_finite (gas_mpe r))"
proof -
  define r where "r = \<lparr>ev_well_api = w,
                        oil_mpe = mpe_spec (map oil test) oil_forecast,
                        gas_mpe = mpe_spec (map gas test) gas_forecast\<rparr>"
  have sw: "score_well cf df w = Inr r"
    using fw unfolding score_well_eq wd_def train_def test_def r_def by simp
  from forecast_well_Inr_D [OF fw]
  have ne: "train \<noteq> []" and la: "length oil_forecast = 12" and lb: "length gas_forecast = 12"
    by simp_all
  have lt: "length test = 12"
    using ne unfolding train_def test_def by (rule train_nonempty_test_12)
  have "wd \<noteq> []"
    using ne unfolding train_def by auto
  then obtain x where "x \<in> set wd"
    by (cases wd) auto
  then have "x \<in> set df" and "well_api x = w"
    unfolding wd_def by simp_all
  then have w: "w \<in> set (map well_api df)"
    by force
  have "r \<in> {r. \<exists>w \<in> set (unique (map well_api df)). score_well cf df w = Inr r}"
    using sw w by (auto simp add: set_unique)
  then have mem: "r \<in> set (evaluate_forecast cf df)"
    unfolding evaluate_forecast_def evaluate_loop_eq scored_set [symmetric] by simp
  have mo: "calculate_mpe (map oil test) oil_forecast = Inr (oil_mpe r)"
    using la lt by (simp add: calculate_mpe_same_length r_def)
  have mg: "calculate_mpe (map gas test) gas_forecast = Inr (gas_mpe r)"
    using lb lt by (simp add: calculate_mpe_same_length r_def)
  have zo: "Fin 0 \<in> set (map oil test) \<longrightarrow> \<not> is_finite (oil_mpe r)"
  proof
    assume "Fin 0 \<in> set (map oil test)"
    then have "\<not> is_finite (mpe_spec (map oil test) oil_forecast)"
      by (rule mpe_spec_not_finite)
    then show "\<not> is_finite (oil_mpe r)"
      by (simp add: r_def)
  qed
  have zg: "Fin 0 \<in> set (map gas test) \<longrightarrow> \<not> is_finite (gas_mpe r)"
  proof
    assume "Fin 0 \<in> set (map gas test)"
    then have "\<not> is_finite (mpe_spec (map gas test) gas_forecast)"
      by (rule mpe_spec_not_finite)
    then show "\<not> is_finite (gas_mpe r)"
      by (simp add: r_def)
  qed
  show ?thesis
    using sw mem mo mg zo zg by blast
qed

theorem zero_actual_nonfinite_mpe_witness:
  "\<exists>r. score_well cf_initial_guess zero_rows 9 = Inr r \<and>
       r \<in> set (evaluate_forecast cf_initial_guess zero_rows) \<and>
       \<not> is_finite (oil_mpe r) \<and> \<not> is_finite (gas_mpe r)"
proof -
  have f: "filter (\<lambda>x. well_api x = 9) zero_rows = zero_rows"
    by (simp add: zero_rows_def)
  have l: "length zero_rows - 12 = 1"
    by (simp add: zero_rows_def)
  have ne: "take 1 zero_rows \<noteq> []"
    by (simp add: zero_rows_def)
  obtain a b where fw: "forecast_well cf_initial_guess (take 1 zero_rows) 12 = Inr (a, b)"
    using forecast_well_initial_guess [OF ne] by blast
  have zo: "Fin 0 \<in> set (map oil (drop 1 zero_rows))"
    by (simp add: zero_rows_def)
  have zg: "Fin 0 \<in> set (map gas (drop 1 zero_rows))"
    by (simp add: zero_rows_def)
  note th = zero_actual_nonfinite_mpe [where df = zero_rows and w = 9 and cf = cf_initial_guess,
      unfolded f l, OF fw]
  show ?thesis
    using th zo zg by blast
qed

section \<open>Properties of the curve fitter\<close>

lemma fl_max_Fin: "fl_max (Fin x) (Fin y) = Fin (max x y)"
  by (simp add: fl_max_def max_def)

lemma foldl_fl_max_Fin: "foldl fl_max (Fin x) (map Fin xs) = Fin (fold max xs x)"
  by (induction xs arbitrary: x) (simp_all add: fl_max_Fin max.commute)

lemma np_max_Fin:
  assumes "xs \<noteq> []"
  shows "np_max (map Fin xs) = Inr (Fin (Max (set xs)))"
proof -
  obtain x rest where xs: "xs = x # rest"
    using assms by (cases xs) auto
  have "np_max (map Fin (x # rest)) = Inr (Fin (fold max rest x))"
    by (simp add: np_max_def foldl_fl_max_Fin)
  also have "fold max rest x = Max (set (x # rest))"
    by (rule Max.set_eq_fold [symmetric])
  finally show ?thesis
    unfolding xs .
qed

lemma within_fit_bounds:
  assumes "within_bounds fit_bounds (qi, di, b)" and "finite_params (qi, di, b)"
  shows "\<exists>q d c. qi = Fin q \<and> di = Fin d \<and> b = Fin c \<and>
           0 \<le> q \<and> 0 \<le> d \<and> d \<le> 1 \<and> 0 \<le> c \<and> c \<le> 2"
  using assms
  by (cases qi; cases di; cases b) (simp_all add: within_bounds_def fit_bounds_def finite_params_def)

text \<open>
  C7. For every time/production input pair, \<open>fit_arps_decline\<close> starts the optimizer from
  the initial guess \<open>qi0 = max(production)\<close>, \<open>di0 = 0.1\<close>, \<open>b0 = 0.5\<close> with the bounds
  \<open>([0, 0, 0], [inf, 1, 2])\<close>, and, the optimizer respecting its bounds, every triple it
  returns has \<open>qi\<close> in \<open>[0, \<infinity>)\<close>, \<open>di\<close> in \<open>[0, 1]\<close> and \<open>b\<close> in \<open>[0, 2]\<close>.
\<close>

theorem fit_arps_decline_guess_and_bounds:
  assumes "respects_bounds cf"
  shows "fit_arps_decline cf time production =
           (case np_max production of
              Inl e \<Rightarrow> Inl e
            | Inr qi0 \<Rightarrow>
                cf arps_decline time production (qi0, Fin (1 / 10), Fin (1 / 2))
                  ((Fin 0, Fin 0, Fin 0), (PInf, Fin 1, Fin 2))) \<and>
         (\<forall>xs. xs \<noteq> [] \<and> production = map Fin xs \<longrightarrow>
               np_max production = Inr (Fin (Max (set xs)))) \<and>
         (\<forall>qi di b. fit_arps_decline cf time production = Inr (qi, di, b) \<longrightarrow>
            (\<exists>q d c. qi = Fin q \<and> di = Fin d \<and> b = Fin c \<and>
               0 \<le> q \<and> 0 \<le> d \<and> d \<le> 1 \<and> 0 \<le> c \<and> c \<le> 2))"
proof (intro conjI allI impI)
  show "fit_arps_decline cf time production =
           (case np_max production of
              Inl e \<Rightarrow> Inl e
            | Inr qi0 \<Rightarrow>
                cf arps_decline time production (qi0, Fin (1 / 10), Fin (1 / 2))
                  ((Fin 0, Fin 0, Fin 0), (PInf, Fin 1, Fin 2)))"
    unfolding fit_arps_decline_def fit_bounds_def by (rule refl)
next
  fix xs :: "real list"
  assume "xs \<noteq> [] \<and> production = map Fin xs"
  then show "np_max production = Inr (Fin (Max (set xs)))"
    by (simp add: np_max_Fin)
next
  fix qi di b
  assume r: "fit_arps_decline cf time production = Inr (qi, di, b)"
  then obtain qi0 where
    "cf arps_decline time production (qi0, Fin (1 / 10), Fin (1 / 2)) fit_bounds = Inr (qi, di, b)"
    unfolding fit_arps_decline_def by (auto split: sum.splits)
  then have "within_bounds fit_bounds (qi, di, b) \<and> finite_params (qi, di, b)"
    using assms unfolding respects_bounds_def by blast
  then show "\<exists>q d c. qi = Fin q \<and> di = Fin d \<and> b = Fin c \<and>
               0 \<le> q \<and> 0 \<le> d \<and> d \<le> 1 \<and> 0 \<le> c \<and> c \<le> 2"
    using within_fit_bounds by blast
qed

lemma respects_bounds_feasible_guess: "respects_bounds cf_feasible_guess"
  unfolding respects_bounds_def cf_feasible_guess_def
  by (auto split: if_splits)

theorem fit_arps_decline_guess_and_bounds_witness:
  "respects_bounds cf_feasible_guess \<and>
   np_max [Fin 100, Fin 90, Fin 120] = Inr (Fin 120) \<and>
   fit_arps_decline cf_feasible_guess [0, 31, 59] [Fin 100, Fin 90, Fin 120]
     = Inr (Fin 120, Fin (1 / 10), Fin (1 / 2))"
proof -
  have m: "np_max [Fin 100, Fin 90, Fin 120] = Inr (Fin 120)"
    by (simp add: np_max_def fl_max_def)
  from fit_arps_decline_guess_and_bounds [OF respects_bounds_feasible_guess,
      of "[0, 31, 59]" "[Fin 100, Fin 90, Fin 120]"]
  have "fit_arps_decline cf_feasible_guess [0, 31, 59] [Fin 100, Fin 90, Fin 120]
     = Inr (Fin 120, Fin (1 / 10), Fin (1 / 2))"
    by (simp add: m cf_feasible_guess_def within_bounds_def finite_params_def)
  then show ?thesis
    using m respects_bounds_feasible_guess by simp
qed

section \<open>Properties of the core on the store\<close>

lemma prefix_alloc: "prefix h (fst (alloc h b))"
  by (simp add: alloc_def)

lemma prefix_new_frame: "prefix h (fst (new_frame h rows))"
  by (simp add: new_frame_def)

lemma ints_prefix: "prefix h h' \<Longrightarrow> a < length h \<Longrightarrow> ints h' a = ints h a"
  by (auto simp add: ints_def prefix_def nth_append)

lemma floats_prefix: "prefix h h' \<Longrightarrow> a < length h \<Longrightarrow> floats h' a = floats h a"
  by (auto simp add: floats_def prefix_def nth_append)

lemma valid_frame_addrs:
  "valid_frame h fr \<Longrightarrow>
     f_well_api fr < length h \<and> f_prod_date fr < length h \<and> f_oil fr < length h \<and> f_gas fr < length h"
  by (simp add: valid_frame_def)

lemma rows_of_prefix:
  assumes "prefix h h'" and "valid_frame h fr"
  shows "rows_of h' fr = rows_of h fr"
  using assms valid_frame_addrs [OF assms(2)]
  by (simp add: rows_of_def ints_prefix floats_prefix)

lemma valid_frame_prefix:
  assumes "prefix h h'" and "valid_frame h fr"
  shows "valid_frame h' fr"
proof -
  obtain zs where h': "h' = h @ zs"
    using assms(1) by (auto simp add: prefix_def)
  show ?thesis
    using assms(2) unfolding h' valid_frame_def by (simp add: nth_append)
qed

lemma read_onlyD: "read_only cfh \<Longrightarrow> prefix h (snd (cfh h f x y p0 bnds))"
  unfolding read_only_def by blast

lemma statelessD:
  "stateless cfh cf \<Longrightarrow> fst (cfh h f x y p0 bnds) = cf f (ints h x) (floats h y) p0 bnds"
  unfolding stateless_def by blast

lemma prefix_fit:
  assumes "read_only cfh"
  shows "prefix h (snd (fit_arps_decline_h cfh h time production))"
  by (cases "np_max (floats h production)")
     (simp_all add: fit_arps_decline_h_def read_onlyD [OF assms])

lemma prefix_forecast:
  assumes "read_only cfh"
  shows "prefix h (snd (forecast_well_h cfh h fr m))"
proof -
  define h1 where "h1 = h @ [Ints (elapsed_days (ints h (f_prod_date fr)))]"
  have p1: "prefix h h1"
    by (simp add: h1_def)
  obtain e1 h2 where r1: "fit_arps_decline_h cfh h1 (length h) (f_oil fr) = (e1, h2)"
    by (cases "fit_arps_decline_h cfh h1 (length h) (f_oil fr)")
  have p2: "prefix h1 h2"
    using prefix_fit [OF assms, of h1 "length h" "f_oil fr"] r1 by simp
  obtain e2 h3 where r2: "fit_arps_decline_h cfh h2 (length h) (f_gas fr) = (e2, h3)"
    by (cases "fit_arps_decline_h cfh h2 (length h) (f_gas fr)")
  have p3: "prefix h2 h3"
    using prefix_fit [OF assms, of h2 "length h" "f_gas fr"] r2 by simp
  have a: "prefix h h2"
    using p1 p2 by (rule prefix_order.trans)
  have b: "prefix h h3"
    using a p3 by (rule prefix_order.trans)
  have "snd (forecast_well_h cfh h fr m) = h2 \<or> snd (forecast_well_h cfh h fr m) = h3"
    unfolding forecast_well_h_def alloc_def Let_def prod.case h1_def [symmetric] r1
    by (cases e1) (auto simp add: r2 split: sum.splits prod.splits)
  then show ?thesis
    using a b by auto
qed

lemma prefix_score:
  assumes "read_only cfh"
  shows "prefix h (snd (score_well_h cfh h df well))"
proof -
  obtain h1 wd where n1: "new_frame h (filter (\<lambda>r. well_api r = well) (rows_of h df)) = (h1, wd)"
    by (cases "new_frame h (filter (\<lambda>r. well_api r = well) (rows_of h df))")
  obtain h2 tr where n2: "new_frame h1 (iloc_upto_neg 12 (rows_of h1 wd)) = (h2, tr)"
    by (cases "new_frame h1 (iloc_upto_neg 12 (rows_of h1 wd))")
  obtain h3 te where n3: "new_frame h2 (iloc_from_neg 12 (rows_of h2 wd)) = (h3, te)"
    by (cases "new_frame h2 (iloc_from_neg 12 (rows_of h2 wd))")
  obtain r h4 where fw: "forecast_well_h cfh h3 tr 12 = (r, h4)"
    by (cases "forecast_well_h cfh h3 tr 12")
  have p1: "prefix h h1"
    using prefix_new_frame [of h "filter (\<lambda>r. well_api r = well) (rows_of h df)"] n1 by simp
  have p2: "prefix h1 h2"
    using prefix_new_frame [of h1 "iloc_upto_neg 12 (rows_of h1 wd)"] n2 by simp
  have p3: "prefix h2 h3"
    using prefix_new_frame [of h2 "iloc_from_neg 12 (rows_of h2 wd)"] n3 by simp
  have p4: "prefix h3 h4"
    using prefix_forecast [OF assms, of h3 tr 12] fw by simp
  have p: "prefix h h4"
    using p1 p2 p3 p4 by (meson prefix_order.trans)
  have "snd (score_well_h cfh h df well) = h4"
    unfolding score_well_h_def Let_def n1 prod.case n2 n3 fw
    by (simp split: sum.splits prod.splits)
  then show ?thesis
    using p by simp
qed

lemma prefix_loop:
  assumes "read_only cfh"
  shows "prefix h (snd (evaluate_loop_h cfh h df wells results))"
proof (induction wells arbitrary: h results)
  case Nil
  show ?case by simp
next
  case (Cons well wells)
  obtain r h' where s: "score_well_h cfh h df well = (r, h')"
    by (cases "score_well_h cfh h df well")
  have p: "prefix h h'"
    using prefix_score [OF assms, of h df well] s by simp
  show ?case
  proof (cases r)
    case (Inl e)
    have "prefix h' (snd (evaluate_loop_h cfh h' df wells results))"
      by (rule Cons.IH)
    then show ?thesis
      using p s Inl by (auto intro: prefix_order.trans)
  next
    case (Inr v)
    have "prefix h' (snd (evaluate_loop_h cfh h' df wells (results @ [v])))"
      by (rule Cons.IH)
    then show ?thesis
      using p s Inr by (auto intro: prefix_order.trans)
  qed
qed

lemma prefix_evaluate:
  "read_only cfh \<Longrightarrow> prefix h (snd (evaluate_forecast_h cfh h df))"
  unfolding evaluate_forecast_h_def by (rule prefix_loop)

lemma fit_h_refines:
  assumes "stateless cfh cf"
  shows "fst (fit_arps_decline_h cfh h ta pa) = fit_arps_decline cf (ints h ta) (floats h pa)"
  by (cases "np_max (floats h pa)")
     (simp_all add: fit_arps_decline_h_def fit_arps_decline_def statelessD [OF assms])

lemma zipped_columns:
  assumes "length ds = length is" and "length xs = length is" and "length ys = length is"
  shows "map well_api (map (\<lambda>(i, d, x, y). make_row i d x y) (zip is (zip ds (zip xs ys)))) = is"
    and "map prod_date (map (\<lambda>(i, d, x, y). make_row i d x y) (zip is (zip ds (zip xs ys)))) = ds"
    and "map oil (map (\<lambda>(i, d, x, y). make_row i d x y) (zip is (zip ds (zip xs ys)))) = xs"
    and "map gas (map (\<lambda>(i, d, x, y). make_row i d x y) (zip is (zip ds (zip xs ys)))) = ys"
  using assms by (auto intro!: nth_equalityI simp add: make_row_def)

lemma valid_frame_columns:
  assumes "valid_frame h fr"
  shows "map well_api (rows_of h fr) = ints h (f_well_api fr)"
    and "map prod_date (rows_of h fr) = ints h (f_prod_date fr)"
    and "map oil (rows_of h fr) = floats h (f_oil fr)"
    and "map gas (rows_of h fr) = floats h (f_gas fr)"
proof -
  from assms obtain "is" ds xs ys where
    a: "f_well_api fr < length h" "f_prod_date fr < length h"
       "f_oil fr < length h" "f_gas fr < length h" and
    c: "h ! f_well_api fr = Ints is" "h ! f_prod_date fr = Ints ds"
       "h ! f_oil fr = Floats xs" "h ! f_gas fr = Floats ys" and
    l: "length ds = length is" "length xs = length is" "length ys = length is"
    unfolding valid_frame_def by (auto split: buffer.splits)
  have r: "ints h (f_well_api fr) = is" "ints h (f_prod_date fr) = ds"
          "floats h (f_oil fr) = xs" "floats h (f_gas fr) = ys"
    using a c by (simp_all add: ints_def floats_def)
  show "map well_api (rows_of h fr) = ints h (f_well_api fr)"
    unfolding rows_of_def r by (rule zipped_columns(1) [OF l])
  show "map prod_date (rows_of h fr) = ints h (f_prod_date fr)"
    unfolding rows_of_def r by (rule zipped_columns(2) [OF l])
  show "map oil (rows_of h fr) = floats h (f_oil fr)"
    unfolding rows_of_def r by (rule zipped_columns(3) [OF l])
  show "map gas (rows_of h fr) = floats h (f_gas fr)"
    unfolding rows_of_def r by (rule zipped_columns(4) [OF l])
qed

lemma forecast_well_h_refines:
  assumes ro: "read_only cfh" and st: "stateless cfh cf" and v: "valid_frame h fr"
  shows "fst (forecast_well_h cfh h fr m) = forecast_well cf (rows_of h fr) m"
proof -
  define t where "t = elapsed_days (ints h (f_prod_date fr))"
  define h1 where "h1 = h @ [Ints t]"
  note a = valid_frame_addrs [OF v]
  note c = valid_frame_columns [OF v]
  have p1: "prefix h h1"
    by (simp add: h1_def)
  have t1: "ints h1 (length h) = t"
    by (simp add: h1_def ints_def)
  have lt: "length h < length h1"
    by (simp add: h1_def)
  obtain e1 h2 where r1: "fit_arps_decline_h cfh h1 (length h) (f_oil fr) = (e1, h2)"
    by (cases "fit_arps_decline_h cfh h1 (length h) (f_oil fr)")
  have p2: "prefix h1 h2"
    using prefix_fit [OF ro, of h1 "length h" "f_oil fr"] r1 by simp
  obtain e2 h3 where r2: "fit_arps_decline_h cfh h2 (length h) (f_gas fr) = (e2, h3)"
    by (cases "fit_arps_decline_h cfh h2 (length h) (f_gas fr)")
  have p3: "prefix h2 h3"
    using prefix_fit [OF ro, of h2 "length h" "f_gas fr"] r2 by simp
  have p02: "prefix h h2"
    using p1 p2 by (rule prefix_order.trans)
  have p13: "prefix h1 h3"
    using p2 p3 by (rule prefix_order.trans)
  have o: "floats h1 (f_oil fr) = map oil (rows_of h fr)"
    using a p1 by (simp add: floats_prefix c)
  have g: "floats h2 (f_gas fr) = map gas (rows_of h fr)"
    using a p02 by (simp add: floats_prefix c)
  have t2: "ints h2 (length h) = t"
    using ints_prefix [OF p2 lt] t1 by simp
  have t3: "ints h3 (length h) = t"
    using ints_prefix [OF p13 lt] t1 by simp
  have e1: "e1 = fit_arps_decline cf t (map oil (rows_of h fr))"
    using fit_h_refines [OF st, of h1 "length h" "f_oil fr"] r1 by (simp add: t1 o)
  have e2: "e2 = fit_arps_decline cf t (map gas (rows_of h fr))"
    using fit_h_refines [OF st, of h2 "length h" "f_gas fr"] r2 by (simp add: t2 g)
  have tt: "elapsed_days (map prod_date (rows_of h fr)) = t"
    by (simp add: t_def c)
  show ?thesis
    unfolding forecast_well_h_def forecast_well_def alloc_def Let_def prod.case
      t_def [symmetric] h1_def [symmetric] tt r1
    by (cases e1) (auto simp add: r2 t3 e1 [symmetric] e2 [symmetric] split: sum.splits prod.splits)
qed

lemma read_only_copying: "read_only cfh_copying"
  by (simp add: read_only_def cfh_copying_def)

lemma stateless_copying: "stateless cfh_copying cf_initial_guess"
  by (simp add: stateless_def cfh_copying_def cf_initial_guess_def)

lemma valid_new_frame: "valid_frame (fst (new_frame h rows)) (snd (new_frame h rows))"
  by (simp add: valid_frame_def new_frame_def nth_append)

lemma rows_of_new_frame: "rows_of (fst (new_frame h rows)) (snd (new_frame h rows)) = rows"
proof -
  have "map (\<lambda>(i, d, x, y). make_row i d x y)
          (zip (map well_api rows) (zip (map prod_date rows) (zip (map oil rows) (map gas rows))))
        = rows"
    by (induction rows) (simp_all add: make_row_def)
  then show ?thesis
    by (simp add: rows_of_def new_frame_def ints_def floats_def nth_append)
qed

lemma new_frame_facts:
  assumes "new_frame h rows = (h', fr)"
  shows "prefix h h'" and "valid_frame h' fr" and "rows_of h' fr = rows"
proof -
  have h': "h' = fst (new_frame h rows)" and fr: "fr = snd (new_frame h rows)"
    using assms by simp_all
  show "prefix h h'"
    unfolding h' by (rule prefix_new_frame)
  show "valid_frame h' fr"
    unfolding h' fr by (rule valid_new_frame)
  show "rows_of h' fr = rows"
    unfolding h' fr by (rule rows_of_new_frame)
qed

lemma score_well_h_refines:
  assumes ro: "read_only cfh" and st: "stateless cfh cf"
  shows "fst (score_well_h cfh h df well) = score_well cf (rows_of h df) well"
proof -
  define wrows where "wrows = filter (\<lambda>r. well_api r = well) (rows_of h df)"
  obtain h1 wd where n1: "new_frame h wrows = (h1, wd)"
    by (cases "new_frame h wrows")
  note f1 = new_frame_facts [OF n1]
  obtain h2 tr where n2: "new_frame h1 (iloc_upto_neg 12 wrows) = (h2, tr)"
    by (cases "new_frame h1 (iloc_upto_neg 12 wrows)")
  note f2 = new_frame_facts [OF n2]
  have w2: "rows_of h2 wd = wrows"
    using rows_of_prefix [OF f2(1) f1(2)] f1(3) by simp
  obtain h3 te where n3: "new_frame h2 (iloc_from_neg 12 wrows) = (h3, te)"
    by (cases "new_frame h2 (iloc_from_neg 12 wrows)")
  note f3 = new_frame_facts [OF n3]
  have v3: "valid_frame h3 tr"
    using f3(1) f2(2) by (rule valid_frame_prefix)
  have t3: "rows_of h3 tr = iloc_upto_neg 12 wrows"
    using rows_of_prefix [OF f3(1) f2(2)] f2(3) by simp
  obtain r h4 where fw: "forecast_well_h cfh h3 tr 12 = (r, h4)"
    by (cases "forecast_well_h cfh h3 tr 12")
  have r: "r = forecast_well cf (iloc_upto_neg 12 wrows) 12"
    using forecast_well_h_refines [OF ro st v3, of 12] fw t3 by simp
  have p4: "prefix h3 h4"
    using prefix_forecast [OF ro, of h3 tr 12] fw by simp
  have a: "f_oil te < length h3" "f_gas te < length h3"
    using valid_frame_addrs [OF f3(2)] by simp_all
  have o: "floats h4 (f_oil te) = map oil (iloc_from_neg 12 wrows)"
    using floats_prefix [OF p4 a(1)] valid_frame_columns(3) [OF f3(2)] f3(3) by simp
  have g: "floats h4 (f_gas te) = map gas (iloc_from_neg 12 wrows)"
    using floats_prefix [OF p4 a(2)] valid_frame_columns(4) [OF f3(2)] f3(3) by simp
  show ?thesis
    unfolding score_well_h_def score_well_def Let_def wrows_def [symmetric]
      n1 prod.case f1(3) n2 w2 n3 fw o g r
    by (auto split: sum.splits prod.splits)
qed

lemma evaluate_loop_h_refines:
  assumes ro: "read_only cfh" and st: "stateless cfh cf"
  shows "valid_frame h df \<Longrightarrow>
         fst (evaluate_loop_h cfh h df wells results)
           = evaluate_loop cf (rows_of h df) wells results"
proof (induction wells arbitrary: h results)
  case Nil
  show ?case by simp
next
  case (Cons well wells)
  obtain r h' where s: "score_well_h cfh h df well = (r, h')"
    by (cases "score_well_h cfh h df well")
  have p: "prefix h h'"
    using prefix_score [OF ro, of h df well] s by simp
  have v: "valid_frame h' df"
    using p Cons.prems by (rule valid_frame_prefix)
  have q: "rows_of h' df = rows_of h df"
    using p Cons.prems by (rule rows_of_prefix)
  have r: "score_well cf (rows_of h df) well = r"
    using score_well_h_refines [OF ro st, of h df well] s by simp
  show ?case
  proof (cases r)
    case (Inl e)
    then show ?thesis
      using Cons.IH [OF v, of results] by (simp add: s r q)
  next
    case (Inr x)
    then show ?thesis
      using Cons.IH [OF v, of "results @ [x]"] by (simp add: s r q)
  qed
qed

lemma evaluate_forecast_h_refines:
  assumes "read_only cfh" and "stateless cfh cf" and "valid_frame h df"
  shows "fst (evaluate_forecast_h cfh h df) = evaluate_forecast cf (rows_of h df)"
  unfolding evaluate_forecast_h_def evaluate_forecast_def
    valid_frame_columns(1) [OF assms(3)]
  by (rule evaluate_loop_h_refines [OF assms])

lemma forecast_two_rows:
  "forecast_well cf_initial_guess two_rows 2 =
     Inr ([arps_decline (Fin 61) (Fin 100) (Fin (1 / 10)) (Fin (1 / 2)),
           arps_decline (Fin 91) (Fin 100) (Fin (1 / 10)) (Fin (1 / 2))],
          [arps_decline (Fin 61) (Fin 50) (Fin (1 / 10)) (Fin (1 / 2)),
           arps_decline (Fin 91) (Fin 50) (Fin (1 / 10)) (Fin (1 / 2))])"
proof -
  have t: "elapsed_days (map prod_date two_rows) = [0, 31]"
    by (simp add: two_rows_def elapsed_days_def)
  have fo: "fit_arps_decline cf_initial_guess [0, 31] (map oil two_rows)
              = Inr (Fin 100, Fin (1 / 10), Fin (1 / 2))"
    by (simp add: two_rows_def fit_arps_decline_def np_max_def fl_max_def cf_initial_guess_def)
  have fg: "fit_arps_decline cf_initial_guess [0, 31] (map gas two_rows)
              = Inr (Fin 50, Fin (1 / 10), Fin (1 / 2))"
    by (simp add: two_rows_def fit_arps_decline_def np_max_def fl_max_def cf_initial_guess_def)
  have ne: "two_rows \<noteq> []"
    by (simp add: two_rows_def)
  have up: "[0..<2] = [0, Suc 0]"
    by (simp add: numeral_2_eq_2)
  show ?thesis
    unfolding forecast_well_eq t fo fg using ne
    by (simp add: up fl_of_int_def)
qed

text \<open>
  C8. For every input window and horizon, two calls of \<open>forecast_well\<close> with identical
  input yield identical output: with an optimizer that is read-only and stateless, the
  result is the same from any two stores in which the window has the same rows, and a
  second call made after the first, on the store the first one left, returns what the
  first returned.
\<close>

theorem forecast_well_deterministic:
  assumes "read_only cfh" and "stateless cfh cf" and "valid_frame h fr"
  shows "(valid_frame h' fr' \<and> rows_of h' fr' = rows_of h fr \<longrightarrow>
            fst (forecast_well_h cfh h' fr' m) = fst (forecast_well_h cfh h fr m)) \<and>
         fst (forecast_well_h cfh (snd (forecast_well_h cfh h fr m)) fr m)
           = fst (forecast_well_h cfh h fr m)"
proof (intro conjI impI)
  assume b: "valid_frame h' fr' \<and> rows_of h' fr' = rows_of h fr"
  then have "fst (forecast_well_h cfh h' fr' m) = forecast_well cf (rows_of h fr) m"
    using forecast_well_h_refines [OF assms(1,2), of h' fr' m] by simp
  then show "fst (forecast_well_h cfh h' fr' m) = fst (forecast_well_h cfh h fr m)"
    using forecast_well_h_refines [OF assms, of m] by simp
next
  let ?h = "snd (forecast_well_h cfh h fr m)"
  have p: "prefix h ?h"
    by (rule prefix_forecast [OF assms(1)])
  have v: "valid_frame ?h fr"
    using p assms(3) by (rule valid_frame_prefix)
  have r: "rows_of ?h fr = rows_of h fr"
    using p assms(3) by (rule rows_of_prefix)
  have "fst (forecast_well_h cfh ?h fr m) = forecast_well cf (rows_of h fr) m"
    using forecast_well_h_refines [OF assms(1,2) v, of m] r by simp
  then show "fst (forecast_well_h cfh ?h fr m) = fst (forecast_well_h cfh h fr m)"
    using forecast_well_h_refines [OF assms, of m] by simp
qed

theorem forecast_well_deterministic_witness:
  "fst (forecast_well_h cfh_copying two_rows_store two_rows_frame 2) =
     Inr ([arps_decline (Fin 61) (Fin 100) (Fin (1 / 10)) (Fin (1 / 2)),
           arps_decline (Fin 91) (Fin 100) (Fin (1 / 10)) (Fin (1 / 2))],
          [arps_decline (Fin 61) (Fin 50) (Fin (1 / 10)) (Fin (1 / 2)),
           arps_decline (Fin 91) (Fin 50) (Fin (1 / 10)) (Fin (1 / 2))]) \<and>
   fst (forecast_well_h cfh_copying
          (snd (forecast_well_h cfh_copying two_rows_store two_rows_frame 2)) two_rows_frame 2) =
     Inr ([arps_decline (Fin 61) (Fin 100) (Fin (1 / 10)) (Fin (1 / 2)),
           arps_decline (Fin 91) (Fin 100) (Fin (1 / 10)) (Fin (1 / 2))],
          [arps_decline (Fin 61) (Fin 50) (Fin (1 / 10)) (Fin (1 / 2)),
           arps_decline (Fin 91) (Fin 50) (Fin (1 / 10)) (Fin (1 / 2))])"
proof -
  have v: "valid_frame two_rows_store two_rows_frame"
    unfolding two_rows_store_def two_rows_frame_def by (rule valid_new_frame)
  have r: "rows_of two_rows_store two_rows_frame = two_rows"
    unfolding two_rows_store_def two_rows_frame_def by (rule rows_of_new_frame)
  have a: "fst (forecast_well_h cfh_copying two_rows_store two_rows_frame 2) =
     Inr ([arps_decline (Fin 61) (Fin 100) (Fin (1 / 10)) (Fin (1 / 2)),
           arps_decline (Fin 91) (Fin 100) (Fin (1 / 10)) (Fin (1 / 2))],
          [arps_decline (Fin 61) (Fin 50) (Fin (1 / 10)) (Fin (1 / 2)),
           arps_decline (Fin 91) (Fin 50) (Fin (1 / 10)) (Fin (1 / 2))])"
    using forecast_well_h_refines [OF read_only_copying stateless_copying v, of 2]
    by (simp only: r forecast_two_rows)
  from forecast_well_deterministic [OF read_only_copying stateless_copying v]
  have "fst (forecast_well_h cfh_copying
          (snd (forecast_well_h cfh_copying two_rows_store two_rows_frame 2)) two_rows_frame 2)
     = fst (forecast_well_h cfh_copying two_rows_store two_rows_frame 2)"
    by blast
  then show ?thesis
    using a by simp
qed

text \<open>
  C9. For every input series, the core operations (\<open>fit_arps_decline\<close>, \<open>forecast_well\<close>,
  \<open>evaluate_forecast\<close>) leave the caller's series unchanged: with a read-only optimizer,
  every array that existed before the call is unchanged after it, and the frame has the
  same rows.
\<close>

theorem core_leaves_series_unchanged:
  assumes "read_only cfh" and "valid_frame h df"
  shows "prefix h (snd (fit_arps_decline_h cfh h time production)) \<and>
         prefix h (snd (forecast_well_h cfh h df m)) \<and>
         rows_of (snd (forecast_well_h cfh h df m)) df = rows_of h df \<and>
         prefix h (snd (evaluate_forecast_h cfh h df)) \<and>
         rows_of (snd (evaluate_forecast_h cfh h df)) df = rows_of h df"
proof (intro conjI)
  show "prefix h (snd (fit_arps_decline_h cfh h time production))"
    by (rule prefix_fit [OF assms(1)])
  show p: "prefix h (snd (forecast_well_h cfh h df m))"
    by (rule prefix_forecast [OF assms(1)])
  show "rows_of (snd (forecast_well_h cfh h df m)) df = rows_of h df"
    using p assms(2) by (rule rows_of_prefix)
  show q: "prefix h (snd (evaluate_forecast_h cfh h df))"
    by (rule prefix_evaluate [OF assms(1)])
  show "rows_of (snd (evaluate_forecast_h cfh h df)) df = rows_of h df"
    using q assms(2) by (rule rows_of_prefix)
qed

theorem core_leaves_series_unchanged_witness:
  "rows_of (snd (forecast_well_h cfh_copying two_rows_store two_rows_frame 2)) two_rows_frame
     = two_rows \<and>
   rows_of (snd (evaluate_forecast_h cfh_copying two_wells_store two_wells_frame)) two_wells_frame
     = two_wells"
proof -
  have v: "valid_frame two_rows_store two_rows_frame"
    unfolding two_rows_store_def two_rows_frame_def by (rule valid_new_frame)
  have r: "rows_of two_rows_store two_rows_frame = two_rows"
    unfolding two_rows_store_def two_rows_frame_def by (rule rows_of_new_frame)
  have v': "valid_frame two_wells_store two_wells_frame"
    unfolding two_wells_store_def two_wells_frame_def by (rule valid_new_frame)
  have r': "rows_of two_wells_store two_wells_frame = two_wells"
    unfolding two_wells_store_def two_wells_frame_def by (rule rows_of_new_frame)
  show ?thesis
    using core_leaves_series_unchanged [OF read_only_copying v, of _ _ 2]
      core_leaves_series_unchanged [OF read_only_copying v', of _ _ 2] r r'
    by simp
qed

end
